theory Spec2Isabelle
  imports Complex_Main "HOL-Library.Word" "HOL-Library.AList"
begin

section \<open>Python values used by the monitor\<close>

text \<open>
  A Python \<open>str\<close> is a sequence of Unicode code points, so it is modelled as a list of
  naturals: the Russian script's literals and the line boundaries U+2028 and U+2029 of
  \<open>str.splitlines\<close> do not fit into an 8-bit character. \<open>lit\<close> turns an ASCII literal
  into such a string. Timestamps (\<open>time.time()\<close>) are real numbers.
\<close>

type_synonym ustr = "nat list"

type_synonym bytes = "8 word list"

definition lit :: "string \<Rightarrow> ustr" where
  "lit s = map of_char s"

text \<open>\<open>sub in s\<close> on strings: \<open>sub\<close> occurs as a contiguous run of \<open>s\<close>.\<close>

fun py_in :: "ustr \<Rightarrow> ustr \<Rightarrow> bool" where
  "py_in sub [] = (sub = [])"
| "py_in sub (c # cs) = (take (length sub) (c # cs) = sub \<or> py_in sub cs)"

text \<open>
  The line boundaries of \<open>str.splitlines\<close>: LF, VT, FF, CR, FS, GS, RS, NEL, LS and PS;
  CR LF counts as one boundary.
\<close>

definition is_linebreak :: "nat \<Rightarrow> bool" where
  "is_linebreak c \<longleftrightarrow>
     c = 10 \<or> c = 11 \<or> c = 12 \<or> c = 13 \<or> c = 28 \<or> c = 29 \<or> c = 30 \<or>
     c = 133 \<or> c = 8232 \<or> c = 8233"

fun splitlines :: "ustr \<Rightarrow> ustr list" where
  "splitlines [] = []"
| "splitlines (c # cs) =
     (if is_linebreak c
      then [] # splitlines (if c = 13 \<and> take 1 cs = [10] then drop 1 cs else cs)
      else (case splitlines cs of [] \<Rightarrow> [[c]] | l # ls \<Rightarrow> (c # l) # ls))"

text \<open>The exceptions the monitor's handlers distinguish, all subclasses of \<open>Exception\<close>.\<close>

datatype exn =
    SocketTimeout
  | SocketGaierror
  | OSError
  | IndexError
  | UnicodeEncodeError
  | SMTPException
  | RequestException
  | OtherException

text \<open>\<open>xs[0]\<close> raises \<open>IndexError\<close> on an empty list.\<close>

definition index0 :: "'a list \<Rightarrow> exn + 'a" where
  "index0 xs = (case xs of [] \<Rightarrow> Inl IndexError | x # _ \<Rightarrow> Inr x)"

section \<open>The codec of \<open>data.decode('utf-8', errors='ignore')\<close>\<close>

text \<open>
  The UTF-8 decoder of CPython reads a lead byte and up to three bytes after it. It gives
  a code point, or an error that covers the lead byte and the bytes after it that were
  accepted: an invalid start byte is an error of one byte, an invalid continuation byte
  ends the error before it, and a sequence cut off by the end of the data is an error up
  to the end. \<open>utf8_first ch bs\<close> is the result for the lead byte \<open>ch\<close> followed by
  \<open>bs\<close>, with the number of bytes of \<open>bs\<close> consumed.
\<close>

definition is_continuation :: "nat \<Rightarrow> bool" where
  "is_continuation b \<longleftrightarrow> 128 \<le> b \<and> b \<le> 191"

definition utf8_first :: "nat \<Rightarrow> nat list \<Rightarrow> nat option \<times> nat" where
  "utf8_first ch bs =
     (if ch < 128 then (Some ch, 0)
      else if ch < 194 then (None, 0)
      else if ch < 224 then
        (case bs of
           [] \<Rightarrow> (None, 0)
         | ch2 # _ \<Rightarrow>
             if is_continuation ch2 then (Some ((ch - 192) * 64 + (ch2 - 128)), 1)
             else (None, 0))
      else if ch < 240 then
        (case bs of
           [] \<Rightarrow> (None, 0)
         | ch2 # rest \<Rightarrow>
             if \<not> is_continuation ch2 \<or> (ch = 224 \<and> ch2 < 160) \<or> (ch = 237 \<and> 160 \<le> ch2)
             then (None, 0)
             else (case rest of
                     [] \<Rightarrow> (None, 1)
                   | ch3 # _ \<Rightarrow>
                       if is_continuation ch3
                       then (Some ((ch - 224) * 4096 + (ch2 - 128) * 64 + (ch3 - 128)), 2)
                       else (None, 1)))
      else if ch < 245 then
        (case bs of
           [] \<Rightarrow> (None, 0)
         | ch2 # rest \<Rightarrow>
             if \<not> is_continuation ch2 \<or> (ch = 240 \<and> ch2 < 144) \<or> (ch = 244 \<and> 144 \<le> ch2)
             then (None, 0)
             else (case rest of
                     [] \<Rightarrow> (None, 1)
                   | ch3 # rest' \<Rightarrow>
                       if \<not> is_continuation ch3 then (None, 1)
                       else (case rest' of
                               [] \<Rightarrow> (None, 2)
                             | ch4 # _ \<Rightarrow>
                                 if is_continuation ch4
                                 then (Some ((ch - 240) * 262144 + (ch2 - 128) * 4096
                                               + (ch3 - 128) * 64 + (ch4 - 128)), 3)
                                 else (None, 2))))
      else (None, 0))"

text \<open>The code points and the errors (\<open>None\<close>) of a sequence of bytes, in order.\<close>

fun utf8_items :: "nat list \<Rightarrow> nat option list" where
  "utf8_items [] = []"
| "utf8_items (ch # bs) =
     fst (utf8_first ch bs) # utf8_items (drop (snd (utf8_first ch bs)) bs)"

text \<open>
  With \<open>errors='ignore'\<close> the errors are dropped. The strict decoder
  (\<open>data.decode('utf-8')\<close>) raises at the first error: a payload is decodable when it has
  none.
\<close>

definition utf8_decode_ignore :: "bytes \<Rightarrow> ustr" where
  "utf8_decode_ignore data = List.map_filter id (utf8_items (map unat data))"

definition utf8_decodable :: "bytes \<Rightarrow> bool" where
  "utf8_decodable data \<longleftrightarrow> list_all (\<lambda>item. item \<noteq> None) (utf8_items (map unat data))"

section \<open>The probe: \<open>send_options\<close>\<close>

text \<open>The three status strings \<open>'unknown'\<close>, \<open>'ok'\<close> and \<open>'failed'\<close>.\<close>

datatype status = Unknown | Ok | Failed

text \<open>
  What the network does during one run of \<open>send_options\<close>: whether creating the socket,
  \<open>sendto\<close> and \<open>settimeout\<close> raise, and what \<open>recvfrom\<close> gives: an exception or a
  datagram \<open>(data, addr)\<close> with \<open>addr = (host, port)\<close>. The calls of \<open>debug_print\<close> and
  the closing of the socket have no part in the status and are left out, except for the
  \<open>STATUS CHANGE\<close> line below.
\<close>

record probe_env =
  socket_raises :: "exn option"
  sendto_raises :: "exn option"
  settimeout_raises :: "exn option"
  recvfrom_result :: "exn + (bytes \<times> (ustr \<times> nat))"

text \<open>
  Lines 120 to 134 of \<open>sip_monitor_en.py\<close>: the payload is decoded with
  \<open>errors='ignore'\<close> (the codec is the parameter \<open>decode\<close>, and \<open>utf8_decode_ignore\<close> is
  the one the code uses), the status line is the first
  line of a non-empty response and the text \<open>EMPTY RESPONSE\<close> otherwise; both handlers
  of the parsing block assign \<open>'failed'\<close>.
\<close>

definition status_line_en :: "ustr \<Rightarrow> exn + ustr" where
  "status_line_en response =
     (if response \<noteq> [] then index0 (splitlines response) else Inr (lit ''EMPTY RESPONSE''))"

definition parse_response_en :: "(bytes \<Rightarrow> ustr) \<Rightarrow> bytes \<Rightarrow> status" where
  "parse_response_en decode data =
     (case status_line_en (decode data) of
        Inl IndexError \<Rightarrow> Failed
      | Inl _ \<Rightarrow> Failed
      | Inr status_line \<Rightarrow>
          if py_in (lit ''SIP/2.0 200 OK'') status_line then Ok else Failed)"

text \<open>Lines 109 to 144: the receive block with its two handlers.\<close>

definition receive_en :: "(bytes \<Rightarrow> ustr) \<Rightarrow> ustr \<Rightarrow> probe_env \<Rightarrow> status" where
  "receive_en decode target_ip env =
     (case recvfrom_result env of
        Inl SocketTimeout \<Rightarrow> Failed
      | Inl _ \<Rightarrow> Failed
      | Inr (data, addr) \<Rightarrow>
          if fst addr = target_ip then parse_response_en decode data else Failed)"

text \<open>
  Lines 100 to 157: \<open>current_run_status\<close> starts as \<open>'unknown'\<close>; an exception of the
  socket creation, of \<open>sendto\<close> or of \<open>settimeout\<close> reaches one of the three outer
  handlers.
\<close>

definition outer_handler :: "exn \<Rightarrow> status" where
  "outer_handler e = (case e of SocketGaierror \<Rightarrow> Failed | OSError \<Rightarrow> Failed | _ \<Rightarrow> Failed)"

definition current_run_status_en :: "(bytes \<Rightarrow> ustr) \<Rightarrow> ustr \<Rightarrow> probe_env \<Rightarrow> status" where
  "current_run_status_en decode target_ip env =
     (case socket_raises env of
        Some e \<Rightarrow> outer_handler e
      | None \<Rightarrow>
         (case sendto_raises env of
            Some e \<Rightarrow> outer_handler e
          | None \<Rightarrow>
             (case settimeout_raises env of
                Some e \<Rightarrow> outer_handler e
              | None \<Rightarrow> receive_en decode target_ip env)))"

section \<open>The status dictionary and its update\<close>

text \<open>
  \<open>phone_status\<close> maps an address to \<open>{'state': ..., 'since': ...}\<close>. A Python dict keeps
  its keys in insertion order, which the report follows, so it is an association list
  with distinct keys: \<open>map_of\<close> reads it and \<open>AList.update\<close> writes it (in place for a
  key that is present, at the end for a new one).
\<close>

record endpoint =
  state :: status
  since :: "real option"

type_synonym phone_status = "(ustr \<times> endpoint) list"

text \<open>
  Lines 160 to 168, the dictionary: \<open>new_timestamp\<close> is the reading of \<open>time.time()\<close>
  there. \<open>send_options\<close> returns nothing; its effect on \<open>phone_status\<close> is the result.
\<close>

definition update_status_en :: "phone_status \<Rightarrow> ustr \<Rightarrow> status \<Rightarrow> real \<Rightarrow> phone_status" where
  "update_status_en phone_status target_ip current_run_status new_timestamp =
     (let previous_status_info =
            (case map_of phone_status target_ip of
               None \<Rightarrow> \<lparr>state = Unknown, since = None\<rparr>
             | Some info \<Rightarrow> info);
          previous_state = state previous_status_info
      in if current_run_status \<noteq> previous_state
         then AList.update target_ip
                \<lparr>state = current_run_status, since = Some new_timestamp\<rparr> phone_status
         else phone_status)"

definition send_options_en ::
  "(bytes \<Rightarrow> ustr) \<Rightarrow> phone_status \<Rightarrow> ustr \<Rightarrow> probe_env \<Rightarrow> real \<Rightarrow> phone_status"
where
  "send_options_en decode phone_status target_ip env new_timestamp =
     update_status_en phone_status target_ip
       (current_run_status_en decode target_ip env) new_timestamp"

text \<open>
  Line 166, the output: on a change of status \<open>debug_print\<close> is called with the
  \<open>STATUS CHANGE\<close> line, and it prints only when \<open>DEBUG\<close> is true (lines 57 and 86 to
  88). \<open>stamp\<close> stands for \<open>time.strftime('%Y-%m-%d %H:%M:%S')\<close> at that moment and
  \<open>strftime_local\<close> for \<open>time.strftime('%Y-%m-%d %H:%M:%S', time.localtime(t))\<close>, which
  sees the whole seconds of \<open>t\<close> only. The result is the line printed, if any.
\<close>

definition status_str :: "status \<Rightarrow> ustr" where
  "status_str s = (case s of Unknown \<Rightarrow> lit ''unknown'' | Ok \<Rightarrow> lit ''ok'' | Failed \<Rightarrow> lit ''failed'')"

definition debug_print :: "bool \<Rightarrow> ustr \<Rightarrow> ustr option" where
  "debug_print DEBUG line = (if DEBUG then Some line else None)"

definition status_change_print_en ::
  "bool \<Rightarrow> ustr \<Rightarrow> (int \<Rightarrow> ustr) \<Rightarrow> phone_status \<Rightarrow> ustr \<Rightarrow> status \<Rightarrow> real \<Rightarrow> ustr option"
where
  "status_change_print_en DEBUG stamp strftime_local phone_status target_ip current_run_status
       new_timestamp =
     (let previous_status_info =
            (case map_of phone_status target_ip of
               None \<Rightarrow> \<lparr>state = Unknown, since = None\<rparr>
             | Some info \<Rightarrow> info);
          previous_state = state previous_status_info
      in if current_run_status \<noteq> previous_state
         then debug_print DEBUG
                (lit ''['' @ stamp @ lit ''] STATUS CHANGE: '' @ target_ip
                   @ lit '' changed from '' @ [39] @ status_str previous_state @ [39]
                   @ lit '' to '' @ [39] @ status_str current_run_status @ [39]
                   @ lit '' at '' @ strftime_local \<lfloor>new_timestamp\<rfloor> @ lit ''.'')
         else None)"

definition send_options_print_en ::
  "bool \<Rightarrow> ustr \<Rightarrow> (int \<Rightarrow> ustr) \<Rightarrow> (bytes \<Rightarrow> ustr) \<Rightarrow> phone_status \<Rightarrow> ustr \<Rightarrow> probe_env \<Rightarrow> real
     \<Rightarrow> ustr option"
where
  "send_options_print_en DEBUG stamp strftime_local decode phone_status target_ip env
       new_timestamp =
     status_change_print_en DEBUG stamp strftime_local phone_status target_ip
       (current_run_status_en decode target_ip env) new_timestamp"

text \<open>
  The settings of lines 47 to 56 that the monitoring logic reads. The functions below take
  the list of targets as an argument; \<open>TARGET_IPS\<close> is the configured one.
\<close>

definition TARGET_IPS :: "ustr list" where
  "TARGET_IPS = [lit ''172.16.31.144'', lit ''192.168.13.101'']"

definition INTERVAL :: real where
  "INTERVAL = 10"


text \<open>Line 183: the dictionary comprehension over \<open>TARGET_IPS\<close>.\<close>

definition init_status :: "ustr list \<Rightarrow> phone_status" where
  "init_status target_ips =
     foldl (\<lambda>d ip. AList.update ip \<lparr>state = Unknown, since = None\<rparr> d) [] target_ips"

text \<open>
  Lines 212 to 219: one thread per target, all joined. Each thread reads and writes its
  own key only, so the threads are run one after the other; every run comes with what
  the network did and with the clock reading of its update.
\<close>

fun run_probes_en ::
  "(bytes \<Rightarrow> ustr) \<Rightarrow> phone_status \<Rightarrow> (ustr \<times> probe_env \<times> real) list \<Rightarrow> phone_status"
where
  "run_probes_en decode phone_status [] = phone_status"
| "run_probes_en decode phone_status ((target_ip, env, now) # runs) =
     run_probes_en decode (send_options_en decode phone_status target_ip env now) runs"

text \<open>
  For the invariant of \<open>since\<close>: the statuses observed for one address along a sequence
  of runs, and the time of the most recent change in a sequence of observations that
  starts from the status \<open>prev\<close>.
\<close>

fun observed_en ::
  "(bytes \<Rightarrow> ustr) \<Rightarrow> ustr \<Rightarrow> (ustr \<times> probe_env \<times> real) list \<Rightarrow> (status \<times> real) list"
where
  "observed_en decode ip [] = []"
| "observed_en decode ip ((target_ip, env, now) # runs) =
     (if target_ip = ip
      then (current_run_status_en decode target_ip env, now) # observed_en decode ip runs
      else observed_en decode ip runs)"

fun most_recent_change :: "status \<Rightarrow> (status \<times> real) list \<Rightarrow> real option" where
  "most_recent_change prev [] = None"
| "most_recent_change prev ((s, t) # rest) =
     (case most_recent_change s rest of
        Some t' \<Rightarrow> Some t'
      | None \<Rightarrow> if s \<noteq> prev then Some t else None)"

fun last_status :: "status \<Rightarrow> (status \<times> real) list \<Rightarrow> status" where
  "last_status prev [] = prev"
| "last_status prev ((s, t) # rest) = last_status s rest"

section \<open>Formatting\<close>

text \<open>Decimal digits of a natural number, \<open>str\<close> of an integer and the format \<open>:02d\<close>.\<close>

fun digits :: "nat \<Rightarrow> ustr" where
  "digits n = (if n < 10 then [48 + n] else digits (n div 10) @ [48 + n mod 10])"

declare digits.simps [simp del]

definition py_str_int :: "int \<Rightarrow> ustr" where
  "py_str_int i = (if i < 0 then 45 # digits (nat (- i)) else digits (nat i))"

definition format_02d :: "int \<Rightarrow> ustr" where
  "format_02d i =
     (if i < 0 then 45 # digits (nat (- i))
      else replicate (2 - length (digits (nat i))) 48 @ digits (nat i))"

text \<open>
  \<open>divmod(x, y)\<close> on floats with a positive divisor, over the reals: the floor of the
  quotient and the remainder. \<open>int(x)\<close> truncates towards zero.
\<close>

definition py_divmod :: "real \<Rightarrow> real \<Rightarrow> real \<times> real" where
  "py_divmod x y = (of_int \<lfloor>x / y\<rfloor>, x - y * of_int \<lfloor>x / y\<rfloor>)"

definition py_int :: "real \<Rightarrow> int" where
  "py_int x = (if 0 \<le> x then \<lfloor>x\<rfloor> else \<lceil>x\<rceil>)"

text \<open>Lines 237 to 239: the duration string of the report.\<close>

definition format_duration_en :: "real \<Rightarrow> ustr" where
  "format_duration_en duration_seconds =
     (let (m, s) = py_divmod duration_seconds 60;
          (h, m) = py_divmod m 60
      in format_02d (py_int h) @ lit '':'' @ format_02d (py_int m) @ lit '':''
           @ format_02d (py_int s))"

section \<open>The report\<close>

text \<open>
  Lines 230 to 243: one line for every entry whose state is \<open>'failed'\<close>, in the order of
  the dictionary. \<open>strftime\<close> stands for
  \<open>time.strftime('%Y-%m-%d %H:%M:%S', time.localtime(t))\<close>. The test
  \<open>if failed_since\<close> is false for \<open>None\<close> and for the timestamp \<open>0.0\<close>.
\<close>

fun report_lines_en :: "(real \<Rightarrow> ustr) \<Rightarrow> real \<Rightarrow> phone_status \<Rightarrow> ustr list" where
  "report_lines_en strftime current_time [] = []"
| "report_lines_en strftime current_time ((ip, status_info) # items) =
     (if state status_info = Failed
      then (case since status_info of
              Some failed_since \<Rightarrow>
                if failed_since \<noteq> 0
                then lit ''- '' @ ip @ lit '': unavailable since ''
                       @ strftime failed_since @ lit '' (duration: ''
                       @ format_duration_en (current_time - failed_since) @ lit '')''
                else lit ''- '' @ ip @ lit '': unavailable (exact failure time unknown)''
            | None \<Rightarrow> lit ''- '' @ ip @ lit '': unavailable (exact failure time unknown)'')
           # report_lines_en strftime current_time items
      else report_lines_en strftime current_time items)"

text \<open>\<open>sep.join(lines)\<close>.\<close>

fun join :: "ustr \<Rightarrow> ustr list \<Rightarrow> ustr" where
  "join sep [] = []"
| "join sep [l] = l"
| "join sep (l # ls) = l @ sep @ join sep ls"

section \<open>The alert functions\<close>

text \<open>
  What a call of an alert function did: the mail or the Telegram message it handed over,
  or the failure its handler swallowed.
\<close>

datatype delivery =
    EmailSent ustr ustr
  | EmailFailed exn
  | TelegramNotConfigured
  | TelegramSent ustr
  | TelegramRejected ustr
  | TelegramFailed exn

text \<open>
  \<open>email_utils.send_email_alert\<close>. The settings come from the environment; the SMTP
  server decides whether each step of the session raises. The first step that raises
  ends the \<open>with\<close> block.
\<close>

record smtp_settings =
  SMTP_USERNAME :: "ustr option"
  SMTP_PASSWORD :: "ustr option"

record smtp_env =
  connect_raises :: "exn option"
  ehlo_raises :: "exn option"
  starttls_raises :: "exn option"
  ehlo_again_raises :: "exn option"
  login_raises :: "exn option"
  sendmail_raises :: "exn option"
  quit_raises :: "exn option"

fun steps :: "exn option list \<Rightarrow> exn + unit" where
  "steps [] = Inr ()"
| "steps (None # rest) = steps rest"
| "steps (Some e # rest) = Inl e"

definition truthy :: "ustr option \<Rightarrow> bool" where
  "truthy s = (case s of None \<Rightarrow> False | Some x \<Rightarrow> x \<noteq> [])"

text \<open>Lines 41 to 53 of \<open>email_utils.py\<close>: the body of the \<open>try\<close>.\<close>

definition smtp_session :: "smtp_settings \<Rightarrow> smtp_env \<Rightarrow> exn + unit" where
  "smtp_session cfg env =
     (if truthy (SMTP_PASSWORD cfg) \<and> SMTP_PASSWORD cfg \<noteq> Some [] \<and> truthy (SMTP_USERNAME cfg)
      then steps [connect_raises env, ehlo_raises env, starttls_raises env,
                  ehlo_again_raises env, login_raises env, sendmail_raises env,
                  quit_raises env]
      else steps [connect_raises env, sendmail_raises env, quit_raises env])"

text \<open>
  Lines 35 to 38, before the \<open>try\<close>: \<open>MIMEText(body)\<close> encodes the body (as ASCII, else
  as UTF-8 with the handler \<open>surrogateescape\<close>) and raises \<open>UnicodeEncodeError\<close> when the
  body has a surrogate code point outside U+DC80 to U+DCFF. Setting the headers does not
  raise; \<open>msg.as_string()\<close> is evaluated inside the \<open>try\<close>, and an exception of it counts
  as one of \<open>sendmail\<close>.
\<close>

definition mime_text_raises :: "ustr \<Rightarrow> exn option" where
  "mime_text_raises body =
     (if list_ex (\<lambda>c. 55296 \<le> c \<and> c \<le> 57343 \<and> \<not> (56448 \<le> c \<and> c \<le> 56575)) body
      then Some UnicodeEncodeError else None)"

text \<open>
  Lines 23 to 55: the message is built, then comes the \<open>try\<close> with its handler
  \<open>except Exception\<close>. \<open>Inl\<close> is an exception that leaves the function;
  \<open>EmailFailed\<close> is a failure of the session that the handler swallowed.
\<close>

definition send_email_alert :: "smtp_settings \<Rightarrow> smtp_env \<Rightarrow> ustr \<Rightarrow> ustr \<Rightarrow> exn + delivery" where
  "send_email_alert cfg env subject body =
     (case mime_text_raises body of
        Some e \<Rightarrow> Inl e
      | None \<Rightarrow>
          (case smtp_session cfg env of
             Inr _ \<Rightarrow> Inr (EmailSent subject body)
           | Inl e \<Rightarrow> Inr (EmailFailed e)))"

text \<open>
  What the two alert functions print at their end. The lines of \<open>email_utils\<close> (53 and
  55) go through \<open>debug_print\<close> and appear only when \<open>DEBUG\<close> is true; those of
  \<open>telegram_utils\<close> (39, 41 and 43) are calls of \<open>print\<close>; its other lines, which go
  through \<open>debug_print\<close>, are left out.
\<close>

datatype printed =
    EmailSentLine ustr
  | EmailErrorLine exn
  | TelegramSentLine
  | TelegramRejectedLine ustr
  | TelegramExceptionLine exn

definition send_email_alert_print ::
  "bool \<Rightarrow> smtp_settings \<Rightarrow> smtp_env \<Rightarrow> ustr \<Rightarrow> ustr \<Rightarrow> printed list"
where
  "send_email_alert_print DEBUG cfg env subject body =
     (case mime_text_raises body of
        Some e \<Rightarrow> []
      | None \<Rightarrow>
          (case smtp_session cfg env of
             Inr _ \<Rightarrow> if DEBUG then [EmailSentLine subject] else []
           | Inl e \<Rightarrow> if DEBUG then [EmailErrorLine e] else []))"

text \<open>
  \<open>telegram_utils.send_telegram_alert\<close>: the token and the chat id are read from the
  environment on every call; \<open>requests.post\<close> raises or gives a status code and a text.
\<close>

record telegram_env =
  TELEGRAM_BOT_TOKEN :: "ustr option"
  TELEGRAM_CHAT_ID :: "ustr option"
  post_result :: "exn + (nat \<times> ustr)"

definition send_telegram_alert :: "telegram_env \<Rightarrow> ustr \<Rightarrow> exn + delivery" where
  "send_telegram_alert env message =
     (if \<not> truthy (TELEGRAM_BOT_TOKEN env) \<or> \<not> truthy (TELEGRAM_CHAT_ID env)
         \<or> TELEGRAM_BOT_TOKEN env = Some (lit ''YOUR_BOT_TOKEN'')
         \<or> TELEGRAM_CHAT_ID env = Some (lit ''YOUR_CHAT_ID'')
      then Inr TelegramNotConfigured
      else (case post_result env of
              Inr (status_code, reply) \<Rightarrow>
                if status_code = 200 then Inr (TelegramSent message)
                else Inr (TelegramRejected reply)
            | Inl e \<Rightarrow> Inr (TelegramFailed e)))"

definition send_telegram_alert_print :: "telegram_env \<Rightarrow> ustr \<Rightarrow> printed list" where
  "send_telegram_alert_print env message =
     (if \<not> truthy (TELEGRAM_BOT_TOKEN env) \<or> \<not> truthy (TELEGRAM_CHAT_ID env)
         \<or> TELEGRAM_BOT_TOKEN env = Some (lit ''YOUR_BOT_TOKEN'')
         \<or> TELEGRAM_CHAT_ID env = Some (lit ''YOUR_CHAT_ID'')
      then []
      else (case post_result env of
              Inr (status_code, reply) \<Rightarrow>
                if status_code = 200 then [TelegramSentLine]
                else [TelegramRejectedLine reply]
            | Inl e \<Rightarrow> [TelegramExceptionLine e]))"

text \<open>The servers behind the two alert functions, as one value.\<close>

record alert_env =
  smtp_cfg :: smtp_settings
  smtp :: smtp_env
  telegram :: telegram_env

section \<open>The OPTIONS message\<close>

text \<open>
  A UUID is a 128-bit number; \<open>str\<close> of it is its 32 lower-case hexadecimal digits in
  groups of 8, 4, 4, 4 and 12, joined by hyphens.
\<close>

type_synonym uuid = "128 word"

definition hex_digit :: "nat \<Rightarrow> nat" where
  "hex_digit d = (if d < 10 then 48 + d else 87 + d)"

fun hex_fixed :: "nat \<Rightarrow> nat \<Rightarrow> ustr" where
  "hex_fixed 0 x = []"
| "hex_fixed (Suc n) x = hex_fixed n (x div 16) @ [hex_digit (x mod 16)]"

definition str_uuid :: "uuid \<Rightarrow> ustr" where
  "str_uuid u =
     (let hex = hex_fixed 32 (unat u)
      in take 8 hex @ lit ''-'' @ take 4 (drop 8 hex) @ lit ''-'' @ take 4 (drop 12 hex)
           @ lit ''-'' @ take 4 (drop 16 hex) @ lit ''-'' @ drop 20 hex)"

text \<open>
  Lines 66 to 68 of \<open>create_options_message\<close>: the three identifiers, each from its own
  call of \<open>uuid.uuid4()\<close>.
\<close>

definition call_id_en :: "uuid \<Rightarrow> ustr" where
  "call_id_en u = str_uuid u"

definition branch_en :: "uuid \<Rightarrow> ustr" where
  "branch_en u = lit ''z9hG4bK'' @ take 8 (str_uuid u)"

definition tag_en :: "uuid \<Rightarrow> ustr" where
  "tag_en u = take 8 (str_uuid u)"



section \<open>The report block and one pass of the loop, English script\<close>

definition ENABLE_EMAIL_ALERTS :: bool where
  "ENABLE_EMAIL_ALERTS = True"

definition ENABLE_TELEGRAM_ALERTS :: bool where
  "ENABLE_TELEGRAM_ALERTS = True"

text \<open>
  Lines 266 to 281 of \<open>sip_monitor_en.py\<close> define \<open>send_telegram_alert\<close> and
  \<open>send_email_alert\<close> again, with the body \<open>pass\<close>. These definitions run after the
  imports of lines 42 and 43 and before \<open>monitor_loop()\<close> is called, so they are what
  the two names denote when \<open>notify_alert\<close> looks them up: the functions of
  \<open>email_utils\<close> and \<open>telegram_utils\<close> are not called by the English script.
\<close>

definition send_email_alert_en :: "ustr \<Rightarrow> ustr \<Rightarrow> exn + delivery list" where
  "send_email_alert_en subject body = Inr []"

definition send_telegram_alert_en :: "ustr \<Rightarrow> exn + delivery list" where
  "send_telegram_alert_en message = Inr []"

text \<open>Lines 170 to 177: \<open>notify_alert\<close>; an exception of a call leaves the function.\<close>

definition notify_alert_en :: "ustr \<Rightarrow> ustr \<Rightarrow> ustr option \<Rightarrow> exn + delivery list" where
  "notify_alert_en subject body telegram_message =
     (case (if ENABLE_EMAIL_ALERTS then send_email_alert_en subject body else Inr []) of
        Inl e \<Rightarrow> Inl e
      | Inr mails \<Rightarrow>
          (case (if ENABLE_TELEGRAM_ALERTS \<and> truthy telegram_message
                 then (case telegram_message of
                         Some message \<Rightarrow> send_telegram_alert_en message
                       | None \<Rightarrow> Inr [])
                 else Inr []) of
             Inl e \<Rightarrow> Inl e
           | Inr messages \<Rightarrow> Inr (mails @ messages)))"

text \<open>
  The outcome of the report block: whether the check fired, the arguments of the call of
  \<open>notify_alert\<close> if there was one, what the alert functions did, and the new
  \<open>last_report_time\<close>.
\<close>

record report_result =
  fired :: bool
  notified :: "(ustr \<times> ustr \<times> ustr) option"
  deliveries :: "delivery list"
  new_last_report_time :: real

text \<open>
  Lines 227 to 254. \<open>stamp\<close> stands for \<open>time.strftime('%Y-%m-%d %H:%M')\<close> and
  \<open>REPORT_INTERVAL_SECONDS\<close> for the integer read from the environment (line 54).
\<close>

definition report_en ::
  "(real \<Rightarrow> ustr) \<Rightarrow> ustr \<Rightarrow> int \<Rightarrow> phone_status \<Rightarrow> real \<Rightarrow> real \<Rightarrow> exn + report_result"
where
  "report_en strftime stamp REPORT_INTERVAL_SECONDS phone_status last_report_time current_time =
     (if current_time - last_report_time \<ge> of_int REPORT_INTERVAL_SECONDS
      then
        (let failed_phones_report_lines = report_lines_en strftime current_time phone_status
         in if failed_phones_report_lines \<noteq> []
            then
              (let subject = lit ''SIP Monitor Report: Unavailable phones ('' @ stamp @ lit '')'';
                   body = lit ''The following SIP phones are currently unavailable:'' @ [10, 10]
                          @ join [10] failed_phones_report_lines
                          @ [10, 10] @ lit ''The monitor continues to run.'';
                   telegram_msg = lit ''SIP Monitor: Unavailable phones:'' @ [10]
                          @ join [10] failed_phones_report_lines
               in case notify_alert_en subject body (Some telegram_msg) of
                    Inl e \<Rightarrow> Inl e
                  | Inr sent \<Rightarrow>
                      Inr \<lparr>fired = True, notified = Some (subject, body, telegram_msg),
                           deliveries = sent, new_last_report_time = current_time\<rparr>)
            else Inr \<lparr>fired = True, notified = None, deliveries = [],
                      new_last_report_time = current_time\<rparr>)
      else Inr \<lparr>fired = False, notified = None, deliveries = [],
                new_last_report_time = last_report_time\<rparr>)"

text \<open>
  One pass of the loop, lines 209 to 261. The three readings of \<open>time.time()\<close> are
  inputs: \<open>at_start\<close> is \<open>start_time\<close> (line 210), \<open>at_end\<close> the reading of line 221
  and \<open>at_report\<close> is \<open>current_time\<close> (line 227). \<open>sleep_call\<close> is the argument of
  \<open>time.sleep\<close> when it is called.
\<close>

record cycle_clock =
  at_start :: real
  at_end :: real
  at_report :: real

record cycle_result =
  cycle_status :: phone_status
  cycle_report :: report_result
  wait_time :: real
  sleep_call :: "real option"

definition wait_time_en :: "real \<Rightarrow> real \<Rightarrow> real" where
  "wait_time_en start finish =
     (let elapsed_time = finish - start in max 0 (INTERVAL - elapsed_time))"

definition monitor_cycle_en ::
  "(bytes \<Rightarrow> ustr) \<Rightarrow> (real \<Rightarrow> ustr) \<Rightarrow> ustr \<Rightarrow> int \<Rightarrow> phone_status \<Rightarrow> real \<Rightarrow> cycle_clock
     \<Rightarrow> (ustr \<times> probe_env \<times> real) list \<Rightarrow> exn + cycle_result"
where
  "monitor_cycle_en decode strftime stamp REPORT_INTERVAL_SECONDS phone_status last_report_time
       clock runs =
     (let probed = run_probes_en decode phone_status runs;
          wait = wait_time_en (at_start clock) (at_end clock)
      in case report_en strftime stamp REPORT_INTERVAL_SECONDS probed last_report_time
                (at_report clock) of
           Inl e \<Rightarrow> Inl e
         | Inr report \<Rightarrow>
             Inr \<lparr>cycle_status = probed, cycle_report = report, wait_time = wait,
                  sleep_call = (if wait > 0 then Some wait else None)\<rparr>)"

text \<open>
  The clock along one pass: the probes take \<open>probe_duration\<close>, the report block takes
  \<open>report_duration\<close>, \<open>time.sleep(wait_time)\<close> returns \<open>wait_time\<close> later and the other
  statements take no time. The result is the reading of line 210 in the next pass.
\<close>

definition next_start_time_en :: "real \<Rightarrow> real \<Rightarrow> real \<Rightarrow> real" where
  "next_start_time_en start probe_duration report_duration =
     (let wait = wait_time_en start (start + probe_duration);
          before_sleep = start + probe_duration + report_duration
      in if wait > 0 then before_sleep + wait else before_sleep)"

section \<open>The Russian script\<close>

text \<open>
  \<open>sip_monitor_ru.py\<close> repeats the functions of the English script with Russian texts.
  Its settings are the same, and it has no second definition of the alert functions:
  \<open>notify_alert\<close> calls those of \<open>email_utils\<close> and \<open>telegram_utils\<close>. The Russian
  literals are given by their code points.
\<close>

definition RU_EMPTY_RESPONSE :: ustr where
  "RU_EMPTY_RESPONSE =
     [1055, 1059, 1057, 1058, 1054, 1049, 32, 1054, 1058, 1042, 1045, 1058]"





definition RU_UNAVAILABLE_SINCE :: ustr where
  "RU_UNAVAILABLE_SINCE =
     [58, 32, 1085, 1077, 1076, 1086, 1089, 1090, 1091, 1087, 1077, 1085, 32, 1089, 32]"

definition RU_DURATION :: ustr where
  "RU_DURATION =
     [32, 40, 1087, 1088, 1086, 1076, 1086, 1083, 1078, 1080, 1090, 1077, 1083, 1100, 1085,
     1086, 1089, 1090, 1100, 58, 32]"

definition RU_UNAVAILABLE_UNKNOWN :: ustr where
  "RU_UNAVAILABLE_UNKNOWN =
     [58, 32, 1085, 1077, 1076, 1086, 1089, 1090, 1091, 1087, 1077, 1085, 32, 40, 1090, 1086,
     1095, 1085, 1086, 1077, 32, 1074, 1088, 1077, 1084, 1103, 32, 1089, 1073, 1086, 1103,
     32, 1085, 1077, 1080, 1079, 1074, 1077, 1089, 1090, 1085, 1086, 41]"

definition RU_SUBJECT :: ustr where
  "RU_SUBJECT =
     [83, 73, 80, 32, 77, 111, 110, 105, 116, 111, 114, 32, 82, 101, 112, 111, 114, 116, 58,
     32, 1053, 1077, 1076, 1086, 1089, 1090, 1091, 1087, 1085, 1099, 1077, 32, 1090, 1077,
     1083, 1077, 1092, 1086, 1085, 1099, 32, 40]"

definition RU_BODY_HEAD :: ustr where
  "RU_BODY_HEAD =
     [1057, 1083, 1077, 1076, 1091, 1102, 1097, 1080, 1077, 32, 83, 73, 80, 32, 1090, 1077,
     1083, 1077, 1092, 1086, 1085, 1099, 32, 1074, 32, 1085, 1072, 1089, 1090, 1086, 1103,
     1097, 1077, 1077, 32, 1074, 1088, 1077, 1084, 1103, 32, 1085, 1077, 1076, 1086, 1089,
     1090, 1091, 1087, 1085, 1099, 58, 10, 10]"

definition RU_BODY_TAIL :: ustr where
  "RU_BODY_TAIL =
     [10, 10, 1052, 1086, 1085, 1080, 1090, 1086, 1088, 32, 1087, 1088, 1086, 1076, 1086,
     1083, 1078, 1072, 1077, 1090, 32, 1088, 1072, 1073, 1086, 1090, 1091, 46]"

definition RU_TELEGRAM_HEAD :: ustr where
  "RU_TELEGRAM_HEAD =
     [83, 73, 80, 32, 77, 111, 110, 105, 116, 111, 114, 58, 32, 1053, 1077, 1076, 1086, 1089,
     1090, 1091, 1087, 1085, 1099, 1077, 32, 1090, 1077, 1083, 1077, 1092, 1086, 1085, 1099,
     58, 10]"





text \<open>Lines 102 to 159: the status of a probe run.\<close>

definition status_line_ru :: "ustr \<Rightarrow> exn + ustr" where
  "status_line_ru response =
     (if response \<noteq> [] then index0 (splitlines response) else Inr (RU_EMPTY_RESPONSE))"

definition parse_response_ru :: "(bytes \<Rightarrow> ustr) \<Rightarrow> bytes \<Rightarrow> status" where
  "parse_response_ru decode data =
     (case status_line_ru (decode data) of
        Inl IndexError \<Rightarrow> Failed
      | Inl _ \<Rightarrow> Failed
      | Inr status_line \<Rightarrow>
          if py_in (lit ''SIP/2.0 200 OK'') status_line then Ok else Failed)"

definition receive_ru :: "(bytes \<Rightarrow> ustr) \<Rightarrow> ustr \<Rightarrow> probe_env \<Rightarrow> status" where
  "receive_ru decode target_ip env =
     (case recvfrom_result env of
        Inl SocketTimeout \<Rightarrow> Failed
      | Inl _ \<Rightarrow> Failed
      | Inr (data, addr) \<Rightarrow>
          if fst addr = target_ip then parse_response_ru decode data else Failed)"

definition current_run_status_ru :: "(bytes \<Rightarrow> ustr) \<Rightarrow> ustr \<Rightarrow> probe_env \<Rightarrow> status" where
  "current_run_status_ru decode target_ip env =
     (case socket_raises env of
        Some e \<Rightarrow> outer_handler e
      | None \<Rightarrow>
         (case sendto_raises env of
            Some e \<Rightarrow> outer_handler e
          | None \<Rightarrow>
             (case settimeout_raises env of
                Some e \<Rightarrow> outer_handler e
              | None \<Rightarrow> receive_ru decode target_ip env)))"

text \<open>
  Lines 161 to 170: the update of \<open>phone_status\<close>, \<open>send_options\<close> as a whole, and the
  line printed on a change of status.
\<close>

definition update_status_ru :: "phone_status \<Rightarrow> ustr \<Rightarrow> status \<Rightarrow> real \<Rightarrow> phone_status" where
  "update_status_ru phone_status target_ip current_run_status new_timestamp =
     (let previous_status_info =
            (case map_of phone_status target_ip of
               None \<Rightarrow> \<lparr>state = Unknown, since = None\<rparr>
             | Some info \<Rightarrow> info);
          previous_state = state previous_status_info
      in if current_run_status \<noteq> previous_state
         then AList.update target_ip
                \<lparr>state = current_run_status, since = Some new_timestamp\<rparr> phone_status
         else phone_status)"

definition send_options_ru ::
  "(bytes \<Rightarrow> ustr) \<Rightarrow> phone_status \<Rightarrow> ustr \<Rightarrow> probe_env \<Rightarrow> real \<Rightarrow> phone_status"
where
  "send_options_ru decode phone_status target_ip env new_timestamp =
     update_status_ru phone_status target_ip
       (current_run_status_ru decode target_ip env) new_timestamp"



text \<open>Lines 214 to 221: the threads of one cycle.\<close>

fun run_probes_ru ::
  "(bytes \<Rightarrow> ustr) \<Rightarrow> phone_status \<Rightarrow> (ustr \<times> probe_env \<times> real) list \<Rightarrow> phone_status"
where
  "run_probes_ru decode phone_status [] = phone_status"
| "run_probes_ru decode phone_status ((target_ip, env, now) # runs) =
     run_probes_ru decode (send_options_ru decode phone_status target_ip env now) runs"

text \<open>Lines 232 to 245: the duration string and the lines of the report.\<close>

definition format_duration_ru :: "real \<Rightarrow> ustr" where
  "format_duration_ru duration_seconds =
     (let (m, s) = py_divmod duration_seconds 60;
          (h, m) = py_divmod m 60
      in format_02d (py_int h) @ lit '':'' @ format_02d (py_int m) @ lit '':''
           @ format_02d (py_int s))"

fun report_lines_ru :: "(real \<Rightarrow> ustr) \<Rightarrow> real \<Rightarrow> phone_status \<Rightarrow> ustr list" where
  "report_lines_ru strftime current_time [] = []"
| "report_lines_ru strftime current_time ((ip, status_info) # items) =
     (if state status_info = Failed
      then (case since status_info of
              Some failed_since \<Rightarrow>
                if failed_since \<noteq> 0
                then lit ''- '' @ ip @ RU_UNAVAILABLE_SINCE
                       @ strftime failed_since @ RU_DURATION
                       @ format_duration_ru (current_time - failed_since) @ lit '')''
                else lit ''- '' @ ip @ RU_UNAVAILABLE_UNKNOWN
            | None \<Rightarrow> lit ''- '' @ ip @ RU_UNAVAILABLE_UNKNOWN)
           # report_lines_ru strftime current_time items
      else report_lines_ru strftime current_time items)"

text \<open>Lines 172 to 179: \<open>notify_alert\<close> with the imported alert functions.\<close>

definition notify_alert_ru ::
  "alert_env \<Rightarrow> ustr \<Rightarrow> ustr \<Rightarrow> ustr option \<Rightarrow> exn + delivery list"
where
  "notify_alert_ru alerts subject body telegram_message =
     (case (if ENABLE_EMAIL_ALERTS
            then map_sum id (\<lambda>d. [d]) (send_email_alert (smtp_cfg alerts) (smtp alerts) subject body)
            else Inr []) of
        Inl e \<Rightarrow> Inl e
      | Inr mails \<Rightarrow>
          (case (if ENABLE_TELEGRAM_ALERTS \<and> truthy telegram_message
                 then (case telegram_message of
                         Some message \<Rightarrow>
                           map_sum id (\<lambda>d. [d]) (send_telegram_alert (telegram alerts) message)
                       | None \<Rightarrow> Inr [])
                 else Inr []) of
             Inl e \<Rightarrow> Inl e
           | Inr messages \<Rightarrow> Inr (mails @ messages)))"

text \<open>Lines 229 to 256: the report block.\<close>

definition report_ru ::
  "alert_env \<Rightarrow> (real \<Rightarrow> ustr) \<Rightarrow> ustr \<Rightarrow> int \<Rightarrow> phone_status \<Rightarrow> real \<Rightarrow> real \<Rightarrow> exn + report_result"
where
  "report_ru alerts strftime stamp REPORT_INTERVAL_SECONDS phone_status last_report_time current_time =
     (if current_time - last_report_time \<ge> of_int REPORT_INTERVAL_SECONDS
      then
        (let failed_phones_report_lines = report_lines_ru strftime current_time phone_status
         in if failed_phones_report_lines \<noteq> []
            then
              (let subject = RU_SUBJECT @ stamp @ lit '')'';
                   body = RU_BODY_HEAD
                          @ join [10] failed_phones_report_lines
                          @ RU_BODY_TAIL;
                   telegram_msg = RU_TELEGRAM_HEAD
                          @ join [10] failed_phones_report_lines
               in case notify_alert_ru alerts subject body (Some telegram_msg) of
                    Inl e \<Rightarrow> Inl e
                  | Inr sent \<Rightarrow>
                      Inr \<lparr>fired = True, notified = Some (subject, body, telegram_msg),
                           deliveries = sent, new_last_report_time = current_time\<rparr>)
            else Inr \<lparr>fired = True, notified = None, deliveries = [],
                      new_last_report_time = current_time\<rparr>)
      else Inr \<lparr>fired = False, notified = None, deliveries = [],
                new_last_report_time = last_report_time\<rparr>)"

text \<open>Lines 211 to 263: one pass of the loop and its clock.\<close>

definition wait_time_ru :: "real \<Rightarrow> real \<Rightarrow> real" where
  "wait_time_ru start finish =
     (let elapsed_time = finish - start in max 0 (INTERVAL - elapsed_time))"

definition monitor_cycle_ru ::
  "alert_env \<Rightarrow> (bytes \<Rightarrow> ustr) \<Rightarrow> (real \<Rightarrow> ustr) \<Rightarrow> ustr \<Rightarrow> int \<Rightarrow> phone_status \<Rightarrow> real \<Rightarrow> cycle_clock
     \<Rightarrow> (ustr \<times> probe_env \<times> real) list \<Rightarrow> exn + cycle_result"
where
  "monitor_cycle_ru alerts decode strftime stamp REPORT_INTERVAL_SECONDS phone_status last_report_time
       clock runs =
     (let probed = run_probes_ru decode phone_status runs;
          wait = wait_time_ru (at_start clock) (at_end clock)
      in case report_ru alerts strftime stamp REPORT_INTERVAL_SECONDS probed last_report_time
                (at_report clock) of
           Inl e \<Rightarrow> Inl e
         | Inr report \<Rightarrow>
             Inr \<lparr>cycle_status = probed, cycle_report = report, wait_time = wait,
                  sleep_call = (if wait > 0 then Some wait else None)\<rparr>)"

definition next_start_time_ru :: "real \<Rightarrow> real \<Rightarrow> real \<Rightarrow> real" where
  "next_start_time_ru start probe_duration report_duration =
     (let wait = wait_time_ru start (start + probe_duration);
          before_sleep = start + probe_duration + report_duration
      in if wait > 0 then before_sleep + wait else before_sleep)"

section \<open>Classification of a probe run\<close>

lemma splitlines_Nil_iff: "splitlines s = [] \<longleftrightarrow> s = []"
  by (cases s) (simp_all split: list.splits)

lemma hd_splitlines:
  "s \<noteq> [] \<Longrightarrow> hd (splitlines s) = takeWhile (\<lambda>c. \<not> is_linebreak c) s"
proof (induction s)
  case Nil
  then show ?case by simp
next
  case (Cons c cs)
  show ?case
  proof (cases "is_linebreak c")
    case True
    then show ?thesis by simp
  next
    case False
    show ?thesis
    proof (cases "splitlines cs")
      case Nil
      then have "cs = []" by (simp add: splitlines_Nil_iff)
      with False show ?thesis by simp
    next
      case (Cons l ls)
      then have "cs \<noteq> []" by auto
      with Cons.IH have "hd (splitlines cs) = takeWhile (\<lambda>c. \<not> is_linebreak c) cs"
        by simp
      with Cons False show ?thesis by simp
    qed
  qed
qed

lemma is_linebreak_set:
  "is_linebreak c \<longleftrightarrow> c \<in> {10, 11, 12, 13, 28, 29, 30, 133, 8232, 8233}"
  by (simp add: is_linebreak_def)

lemma first_line_eq:
  "s \<noteq> [] \<Longrightarrow>
     hd (splitlines s) = takeWhile (\<lambda>c. c \<notin> {10, 11, 12, 13, 28, 29, 30, 133, 8232, 8233}) s"
  using hd_splitlines [of s] by (simp add: is_linebreak_set)

lemma take_length_eq: "take (length sub) xs = sub \<longleftrightarrow> (\<exists>ss. xs = sub @ ss)"
  by (metis append_eq_conv_conj append_take_drop_id)

lemma py_in_iff: "py_in sub s \<longleftrightarrow> (\<exists>ps ss. s = ps @ sub @ ss)"
proof (induction s)
  case Nil
  then show ?case by auto
next
  case (Cons c cs)
  have "(\<exists>ps ss. c # cs = ps @ sub @ ss)
        \<longleftrightarrow> (\<exists>ss. c # cs = sub @ ss) \<or> (\<exists>ps ss. cs = ps @ sub @ ss)"
  proof
    assume "\<exists>ps ss. c # cs = ps @ sub @ ss"
    then obtain ps ss where eq: "c # cs = ps @ sub @ ss" by blast
    show "(\<exists>ss. c # cs = sub @ ss) \<or> (\<exists>ps ss. cs = ps @ sub @ ss)"
    proof (cases ps)
      case Nil
      with eq show ?thesis by auto
    next
      case (Cons p ps')
      with eq have "cs = ps' @ sub @ ss" by simp
      then show ?thesis by blast
    qed
  next
    assume "(\<exists>ss. c # cs = sub @ ss) \<or> (\<exists>ps ss. cs = ps @ sub @ ss)"
    then show "\<exists>ps ss. c # cs = ps @ sub @ ss"
    proof
      assume "\<exists>ss. c # cs = sub @ ss"
      then obtain ss where "c # cs = [] @ sub @ ss" by auto
      then show ?thesis by blast
    next
      assume "\<exists>ps ss. cs = ps @ sub @ ss"
      then obtain ps ss where "c # cs = (c # ps) @ sub @ ss" by auto
      then show ?thesis by blast
    qed
  qed
  with Cons.IH show ?case
    by (simp add: take_length_eq del: take_Suc_Cons)
qed

lemma parse_response_en_cases:
  "parse_response_en decode data =
     (if decode data \<noteq> [] \<and> py_in (lit ''SIP/2.0 200 OK'') (hd (splitlines (decode data)))
      then Ok else Failed)"
proof (cases "decode data")
  case Nil
  have "\<not> py_in (lit ''SIP/2.0 200 OK'') (lit ''EMPTY RESPONSE'')"
    by (simp add: lit_def)
  with Nil show ?thesis
    by (simp add: parse_response_en_def status_line_en_def)
next
  case (Cons c cs)
  then have "splitlines (decode data) \<noteq> []"
    by (simp split: list.splits)
  then obtain l ls where "splitlines (decode data) = l # ls"
    by (cases "splitlines (decode data)") auto
  with Cons show ?thesis
    by (simp add: parse_response_en_def status_line_en_def index0_def)
qed

lemma outer_handler_failed: "outer_handler e = Failed"
  by (cases e) (simp_all add: outer_handler_def)

lemma receive_en_error: "recvfrom_result env = Inl e \<Longrightarrow> receive_en decode ip env = Failed"
  by (cases e) (simp_all add: receive_en_def)

lemma current_run_status_en_range:
  "current_run_status_en decode ip env = Ok \<or> current_run_status_en decode ip env = Failed"
proof (cases "recvfrom_result env")
  case (Inl e)
  then show ?thesis
    by (simp add: current_run_status_en_def outer_handler_failed receive_en_error
        split: option.splits)
next
  case (Inr r)
  then show ?thesis
    by (cases r)
      (simp add: current_run_status_en_def outer_handler_failed receive_en_def
        parse_response_en_cases split: option.splits)
qed


lemma current_run_status_en_cases:
  "current_run_status_en decode target_ip env =
     (if socket_raises env \<noteq> None \<or> sendto_raises env \<noteq> None \<or> settimeout_raises env \<noteq> None
      then Failed
      else case recvfrom_result env of
             Inl e \<Rightarrow> Failed
           | Inr (data, addr) \<Rightarrow>
               if fst addr \<noteq> target_ip then Failed
               else if py_in (lit ''SIP/2.0 200 OK'')
                         (takeWhile (\<lambda>c. c \<notin> {10, 11, 12, 13, 28, 29, 30, 133, 8232, 8233})
                            (decode data))
                    then Ok else Failed)"
proof (cases "recvfrom_result env")
  case (Inl e)
  then show ?thesis
    by (simp add: current_run_status_en_def outer_handler_failed receive_en_error
        split: option.splits)
next
  case (Inr r)
  obtain data addr where r: "r = (data, addr)" by (cases r) auto
  have "parse_response_en decode data =
          (if py_in (lit ''SIP/2.0 200 OK'')
                (takeWhile (\<lambda>c. c \<notin> {10, 11, 12, 13, 28, 29, 30, 133, 8232, 8233}) (decode data))
           then Ok else Failed)"
  proof (cases "decode data = []")
    case True
    then show ?thesis
      by (simp add: parse_response_en_cases lit_def)
  next
    case False
    then show ?thesis
      by (simp add: parse_response_en_cases first_line_eq)
  qed
  with Inr r show ?thesis
    by (simp add: current_run_status_en_def outer_handler_failed receive_en_def
        split: option.splits)
qed

lemma ok_literal: "lit ''SIP/2.0 200 OK'' = [83, 73, 80, 47, 50, 46, 48, 32, 50, 48, 48, 32, 79, 75]"
  by (simp add: lit_def)

lemma current_run_status_en_ok_iff:
  "current_run_status_en decode target_ip env = Ok \<longleftrightarrow>
     socket_raises env = None \<and> sendto_raises env = None \<and> settimeout_raises env = None
     \<and> (\<exists>data addr ps ss.
           recvfrom_result env = Inr (data, addr) \<and> fst addr = target_ip
         \<and> takeWhile (\<lambda>c. c \<notin> {10, 11, 12, 13, 28, 29, 30, 133, 8232, 8233}) (decode data)
             = ps @ [83, 73, 80, 47, 50, 46, 48, 32, 50, 48, 48, 32, 79, 75] @ ss)"
proof (cases "recvfrom_result env")
  case (Inl e)
  then show ?thesis
    by (simp add: current_run_status_en_cases)
next
  case (Inr r)
  obtain data addr where r: "r = (data, addr)" by (cases r) auto
  from Inr r show ?thesis
    by (auto simp: current_run_status_en_cases py_in_iff ok_literal)
qed

lemma contains_ok_iff:
  "(\<exists>ps ss. s = ps @ 83 # 73 # 80 # 47 # 50 # 46 # 48 # 32 # 50 # 48 # 48 # 32 # 79 # 75 # ss)
     \<longleftrightarrow> py_in [83, 73, 80, 47, 50, 46, 48, 32, 50, 48, 48, 32, 79, 75] s"
  by (simp add: py_in_iff)

subsection \<open>The codec\<close>

lemma utf8_items_ascii:
  "\<forall>b \<in> set xs. b < 128 \<Longrightarrow> utf8_items (xs @ ys) = map Some xs @ utf8_items ys"
  by (induction xs) (simp_all add: utf8_first_def)

lemma utf8_items_invalid_start:
  "128 \<le> b \<and> b < 194 \<or> 245 \<le> b \<Longrightarrow> utf8_items (b # ys) = None # utf8_items ys"
  by (auto simp: utf8_first_def)

lemma map_filter_id_Some: "List.map_filter id (map Some xs @ ys) = xs @ List.map_filter id ys"
  by (induction xs) (simp_all add: List.map_filter_simps)

lemma utf8_decode_ignore_ascii:
  assumes "\<forall>x \<in> set xs. x < 128"
  shows "utf8_decode_ignore xs = map unat xs"
proof -
  from assms have "\<forall>b \<in> set (map unat xs). b < 128"
    by (auto simp: word_less_nat_alt)
  from utf8_items_ascii [OF this, of "[]"] show ?thesis
    using map_filter_id_Some [of "map unat xs" "[]"]
    by (simp add: utf8_decode_ignore_def List.map_filter_simps)
qed

lemma utf8_invalid_start_dropped:
  assumes "\<forall>x \<in> set xs. x < 128" and "128 \<le> b \<and> b < 194 \<or> 245 \<le> b"
  shows "utf8_decode_ignore (xs @ b # ys) = map unat xs @ utf8_decode_ignore ys"
    and "\<not> utf8_decodable (xs @ b # ys)"
proof -
  from assms(1) have ascii: "\<forall>b \<in> set (map unat xs). b < 128"
    by (auto simp: word_less_nat_alt)
  from assms(2) have "128 \<le> unat b \<and> unat b < 194 \<or> 245 \<le> unat b"
    by (auto simp: word_less_nat_alt word_le_nat_alt)
  then have "utf8_items (unat b # map unat ys) = None # utf8_items (map unat ys)"
    by (rule utf8_items_invalid_start)
  with utf8_items_ascii [OF ascii, of "unat b # map unat ys"]
  have items: "utf8_items (map unat (xs @ b # ys)) =
      map Some (map unat xs) @ None # utf8_items (map unat ys)"
    by simp
  show "utf8_decode_ignore (xs @ b # ys) = map unat xs @ utf8_decode_ignore ys"
    by (simp only: utf8_decode_ignore_def items map_filter_id_Some)
       (simp add: List.map_filter_simps)
  show "\<not> utf8_decodable (xs @ b # ys)"
    by (simp only: utf8_decodable_def items) simp
qed


text \<open>
  C1, as amended. A probe run gives \<open>'ok'\<close> exactly when nothing raised, a datagram
  arrived from the target's address, and the first line of its decoded text (the text up
  to the first line boundary) contains \<open>SIP/2.0 200 OK\<close>; every other run gives
  \<open>'failed'\<close>: a timeout or another exception, a datagram from another address, a first
  line without that text, an empty text. The text is the payload decoded with
  \<open>errors='ignore'\<close>: the bytes that cannot be decoded are dropped and the rest is
  classified, so an undecodable payload is not \<open>'failed'\<close> as such.
\<close>

theorem probe_classification:
  "(current_run_status_en decode target_ip env = Ok \<longleftrightarrow>
      socket_raises env = None \<and> sendto_raises env = None \<and> settimeout_raises env = None
      \<and> (\<exists>data addr ps ss.
            recvfrom_result env = Inr (data, addr) \<and> fst addr = target_ip
          \<and> takeWhile (\<lambda>c. c \<notin> {10, 11, 12, 13, 28, 29, 30, 133, 8232, 8233}) (decode data)
              = ps @ [83, 73, 80, 47, 50, 46, 48, 32, 50, 48, 48, 32, 79, 75] @ ss))
   \<and> (current_run_status_en decode target_ip env = Ok
        \<or> current_run_status_en decode target_ip env = Failed)
   \<and> ((\<forall>x \<in> set xs. x < 128) \<and> (128 \<le> b \<and> b < 194 \<or> 245 \<le> b) \<longrightarrow>
         utf8_decode_ignore (xs @ b # ys) = map unat xs @ utf8_decode_ignore ys
       \<and> \<not> utf8_decodable (xs @ b # ys))
   \<and> ((\<forall>x \<in> set xs. x < 128) \<longrightarrow> utf8_decode_ignore xs = map unat xs)"
  using current_run_status_en_ok_iff [of decode target_ip env]
    current_run_status_en_range [of decode target_ip env]
    utf8_invalid_start_dropped [of xs b ys] utf8_decode_ignore_ascii [of xs]
  by blast

text \<open>
  C1 as stated fails: the payload \<open>SIP/2.0 200\<close>, the byte 255, \<open> OK\<close> and CR LF
  cannot be decoded as UTF-8, and from the target's address it is classified \<open>'ok'\<close>.
\<close>

theorem undecodable_payload_counterexample:
  "\<not> utf8_decodable [83, 73, 80, 47, 50, 46, 48, 32, 50, 48, 48, 255, 32, 79, 75, 13, 10]
   \<and> current_run_status_en utf8_decode_ignore (lit ''10.0.0.1'')
       \<lparr>socket_raises = None, sendto_raises = None, settimeout_raises = None,
        recvfrom_result =
          Inr ([83, 73, 80, 47, 50, 46, 48, 32, 50, 48, 48, 255, 32, 79, 75, 13, 10],
               (lit ''10.0.0.1'', 5060))\<rparr> = Ok"
proof -
  let ?xs = "[83, 73, 80, 47, 50, 46, 48, 32, 50, 48, 48] :: bytes"
  let ?ys = "[32, 79, 75, 13, 10] :: bytes"
  have xs: "\<forall>x \<in> set ?xs. x < 128" and ys: "\<forall>x \<in> set ?ys. x < 128"
    by simp_all
  have b: "128 \<le> (255 :: 8 word) \<and> (255 :: 8 word) < 194 \<or> 245 \<le> (255 :: 8 word)"
    by simp
  from utf8_invalid_start_dropped [OF xs b, of ?ys] utf8_decode_ignore_ascii [OF ys]
  have "utf8_decode_ignore (?xs @ 255 # ?ys) = map unat ?xs @ map unat ?ys"
    and "\<not> utf8_decodable (?xs @ 255 # ?ys)"
    by simp_all
  then show ?thesis
    by (simp add: current_run_status_en_cases lit_def)
qed

theorem probe_classification_witness:
  "current_run_status_en utf8_decode_ignore (lit ''10.0.0.1'')
     \<lparr>socket_raises = None, sendto_raises = None, settimeout_raises = None,
      recvfrom_result =
        Inr ([83, 73, 80, 47, 50, 46, 48, 32, 52, 48, 52, 32, 78, 111, 116, 32, 70, 111, 117,
              110, 100, 13, 10, 88, 58, 32, 83, 73, 80, 47, 50, 46, 48, 32, 50, 48, 48, 32, 79,
              75, 13, 10],
             (lit ''10.0.0.1'', 5060))\<rparr> = Failed
   \<and> current_run_status_en utf8_decode_ignore (lit ''10.0.0.1'')
     \<lparr>socket_raises = None, sendto_raises = None, settimeout_raises = None,
      recvfrom_result =
        Inr ([83, 73, 80, 47, 50, 46, 48, 32, 50, 48, 48, 32, 79, 75, 13, 10, 86, 105, 97, 58,
              32, 120, 13, 10],
             (lit ''10.0.0.1'', 5060))\<rparr> = Ok
   \<and> current_run_status_en utf8_decode_ignore (lit ''10.0.0.1'')
     \<lparr>socket_raises = None, sendto_raises = None, settimeout_raises = None,
      recvfrom_result =
        Inr ([83, 73, 80, 47, 50, 46, 48, 32, 50, 48, 48, 32, 79, 75, 13, 10],
             (lit ''10.0.0.2'', 5060))\<rparr> = Failed
   \<and> current_run_status_en utf8_decode_ignore (lit ''10.0.0.1'')
     \<lparr>socket_raises = None, sendto_raises = None, settimeout_raises = None,
      recvfrom_result = Inl SocketTimeout\<rparr> = Failed"
proof -
  let ?not_found = "[83, 73, 80, 47, 50, 46, 48, 32, 52, 48, 52, 32, 78, 111, 116, 32, 70, 111,
      117, 110, 100, 13, 10, 88, 58, 32, 83, 73, 80, 47, 50, 46, 48, 32, 50, 48, 48, 32, 79, 75,
      13, 10] :: bytes"
  let ?ok = "[83, 73, 80, 47, 50, 46, 48, 32, 50, 48, 48, 32, 79, 75, 13, 10, 86, 105, 97, 58,
      32, 120, 13, 10] :: bytes"
  let ?short = "[83, 73, 80, 47, 50, 46, 48, 32, 50, 48, 48, 32, 79, 75, 13, 10] :: bytes"
  let ?env = "\<lambda>r. \<lparr>socket_raises = None, sendto_raises = None, settimeout_raises = None,
      recvfrom_result = r\<rparr>"
  have dec: "utf8_decode_ignore ?not_found = map unat ?not_found"
    "utf8_decode_ignore ?ok = map unat ?ok" "utf8_decode_ignore ?short = map unat ?short"
    using probe_classification [of utf8_decode_ignore "[]" "?env (Inl OSError)" ?not_found]
      probe_classification [of utf8_decode_ignore "[]" "?env (Inl OSError)" ?ok]
      probe_classification [of utf8_decode_ignore "[]" "?env (Inl OSError)" ?short]
    by simp_all
  note c = probe_classification [of utf8_decode_ignore "lit ''10.0.0.1''" _ "[]" 0 "[]"]
  have "current_run_status_en utf8_decode_ignore (lit ''10.0.0.1'')
          (?env (Inr (?not_found, (lit ''10.0.0.1'', 5060)))) \<noteq> Ok"
    using c [of "?env (Inr (?not_found, (lit ''10.0.0.1'', 5060)))"]
    by (simp add: dec contains_ok_iff)
  moreover have "current_run_status_en utf8_decode_ignore (lit ''10.0.0.1'')
          (?env (Inr (?ok, (lit ''10.0.0.1'', 5060)))) = Ok"
    using c [of "?env (Inr (?ok, (lit ''10.0.0.1'', 5060)))"]
    by (simp add: dec contains_ok_iff)
  moreover have "current_run_status_en utf8_decode_ignore (lit ''10.0.0.1'')
          (?env (Inr (?short, (lit ''10.0.0.2'', 5060)))) \<noteq> Ok"
    using c [of "?env (Inr (?short, (lit ''10.0.0.2'', 5060)))"]
    by (simp add: lit_def)
  moreover have "current_run_status_en utf8_decode_ignore (lit ''10.0.0.1'')
          (?env (Inl SocketTimeout)) \<noteq> Ok"
    using c [of "?env (Inl SocketTimeout)"]
    by simp
  ultimately show ?thesis
    using c [of "?env (Inr (?not_found, (lit ''10.0.0.1'', 5060)))"]
      c [of "?env (Inr (?short, (lit ''10.0.0.2'', 5060)))"]
      c [of "?env (Inl SocketTimeout)"]
    by blast
qed

section \<open>The update of the status dictionary\<close>

lemma update_status_en_same:
  assumes "map_of ps ip = Some info" "cur = state info"
  shows "update_status_en ps ip cur now = ps"
  using assms by (simp add: update_status_en_def)

lemma update_status_en_changed:
  assumes "map_of ps ip = Some info" "cur \<noteq> state info"
  shows "update_status_en ps ip cur now =
           AList.update ip \<lparr>state = cur, since = Some now\<rparr> ps"
  using assms by (simp add: update_status_en_def)

lemma status_change_print_en_same:
  assumes "map_of ps ip = Some info" "cur = state info"
  shows "status_change_print_en DEBUG stamp strftime_local ps ip cur now = None"
  using assms by (simp add: status_change_print_en_def)

lemma status_change_print_en_changed:
  assumes "map_of ps ip = Some info" "cur \<noteq> state info"
  shows "status_change_print_en DEBUG stamp strftime_local ps ip cur now =
           (if DEBUG
            then Some (lit ''['' @ stamp @ lit ''] STATUS CHANGE: '' @ ip
                   @ lit '' changed from '' @ [39] @ status_str (state info) @ [39]
                   @ lit '' to '' @ [39] @ status_str cur @ [39]
                   @ lit '' at '' @ strftime_local \<lfloor>now\<rfloor> @ lit ''.'')
            else None)"
  using assms by (simp add: status_change_print_en_def debug_print_def)

lemma map_of_keys_update:
  "map_of ps ip = Some info \<Longrightarrow> map fst (AList.update ip v ps) = map fst ps"
  by (auto simp: update_keys dest: map_of_SomeD intro: rev_image_eqI)

text \<open>
  C2, as amended. For a registered target, a probe run yields \<open>'ok'\<close> or \<open>'failed'\<close>. When
  that status is the stored one, the dictionary stays as it was and no \<open>STATUS CHANGE\<close>
  line is printed. Otherwise the target's entry becomes exactly the new status with the
  timestamp \<open>now\<close>, and every other entry and the order of the keys stay.
  \<open>send_options\<close> returns no event: when \<open>DEBUG\<close> is true it prints a \<open>STATUS CHANGE\<close>
  line with the target, the old status, the new status and the whole seconds of \<open>now\<close>,
  and when \<open>DEBUG\<close> is false it prints no such line.
\<close>

theorem status_update:
  assumes "map_of phone_status target_ip = Some info"
  shows "(current_run_status_en decode target_ip env = Ok \<or>
          current_run_status_en decode target_ip env = Failed)
       \<and> (current_run_status_en decode target_ip env = state info \<longrightarrow>
            send_options_en decode phone_status target_ip env now = phone_status
          \<and> send_options_print_en DEBUG stamp strftime_local decode phone_status target_ip env
                now = None)
       \<and> (current_run_status_en decode target_ip env \<noteq> state info \<longrightarrow>
            map_of (send_options_en decode phone_status target_ip env now) =
              (map_of phone_status)(target_ip \<mapsto>
                 \<lparr>state = current_run_status_en decode target_ip env, since = Some now\<rparr>)
          \<and> map fst (send_options_en decode phone_status target_ip env now) =
              map fst phone_status
          \<and> send_options_print_en DEBUG stamp strftime_local decode phone_status target_ip env
                now =
              (if DEBUG
               then Some (lit ''['' @ stamp @ lit ''] STATUS CHANGE: '' @ target_ip
                      @ lit '' changed from '' @ [39] @ status_str (state info) @ [39]
                      @ lit '' to '' @ [39]
                      @ status_str (current_run_status_en decode target_ip env) @ [39]
                      @ lit '' at '' @ strftime_local \<lfloor>now\<rfloor> @ lit ''.'')
               else None))"
  using assms
  by (simp add: send_options_en_def send_options_print_en_def update_status_en_same
      update_status_en_changed status_change_print_en_same status_change_print_en_changed
      current_run_status_en_range update_conv' map_of_keys_update)

text \<open>
  C2 as stated fails: with \<open>DEBUG\<close> false a change from \<open>'ok'\<close> to \<open>'failed'\<close> is stored
  and no event of any kind comes out; and with \<open>DEBUG\<close> true the line printed is the same
  for two different times within one second, so it does not carry \<open>now\<close>.
\<close>

theorem status_event_counterexample:
  "send_options_en utf8_decode_ignore [(lit ''10.0.0.1'', \<lparr>state = Ok, since = Some 5\<rparr>)]
      (lit ''10.0.0.1'')
      \<lparr>socket_raises = None, sendto_raises = None, settimeout_raises = None,
        recvfrom_result = Inl SocketTimeout\<rparr> 7
     = [(lit ''10.0.0.1'', \<lparr>state = Failed, since = Some 7\<rparr>)]
   \<and> send_options_print_en False (lit ''1970-01-01 00:00:07'') py_str_int utf8_decode_ignore
      [(lit ''10.0.0.1'', \<lparr>state = Ok, since = Some 5\<rparr>)] (lit ''10.0.0.1'')
      \<lparr>socket_raises = None, sendto_raises = None, settimeout_raises = None,
        recvfrom_result = Inl SocketTimeout\<rparr> 7
     = None
   \<and> send_options_print_en True (lit ''1970-01-01 00:00:07'') py_str_int utf8_decode_ignore
      [(lit ''10.0.0.1'', \<lparr>state = Ok, since = Some 5\<rparr>)] (lit ''10.0.0.1'')
      \<lparr>socket_raises = None, sendto_raises = None, settimeout_raises = None,
        recvfrom_result = Inl SocketTimeout\<rparr> (29 / 4)
     = send_options_print_en True (lit ''1970-01-01 00:00:07'') py_str_int utf8_decode_ignore
      [(lit ''10.0.0.1'', \<lparr>state = Ok, since = Some 5\<rparr>)] (lit ''10.0.0.1'')
      \<lparr>socket_raises = None, sendto_raises = None, settimeout_raises = None,
        recvfrom_result = Inl SocketTimeout\<rparr> (31 / 4)"
proof -
  have "\<lfloor>29 / 4 :: real\<rfloor> = 7" "\<lfloor>31 / 4 :: real\<rfloor> = 7"
    by simp_all
  then show ?thesis
    by (simp add: send_options_en_def send_options_print_en_def update_status_en_def
        status_change_print_en_def debug_print_def current_run_status_en_def receive_en_def)
qed

theorem status_update_witness:
  "send_options_en utf8_decode_ignore [(lit ''a'', \<lparr>state = Ok, since = Some 5\<rparr>)] (lit ''a'')
      \<lparr>socket_raises = None, sendto_raises = None, settimeout_raises = None,
        recvfrom_result = Inl SocketTimeout\<rparr> 7
     = [(lit ''a'', \<lparr>state = Failed, since = Some 7\<rparr>)]
   \<and> send_options_print_en True (lit ''t'') (\<lambda>t. lit ''seven'') utf8_decode_ignore
        [(lit ''a'', \<lparr>state = Ok, since = Some 5\<rparr>)] (lit ''a'')
        \<lparr>socket_raises = None, sendto_raises = None, settimeout_raises = None,
          recvfrom_result = Inl SocketTimeout\<rparr> 7
     = Some (lit ''[t] STATUS CHANGE: a changed from '' @ [39] @ lit ''ok'' @ [39]
              @ lit '' to '' @ [39] @ lit ''failed'' @ [39] @ lit '' at seven.'')"
proof -
  let ?ps = "[(lit ''a'', \<lparr>state = Ok, since = Some (5::real)\<rparr>)]"
  let ?env = "\<lparr>socket_raises = None, sendto_raises = None, settimeout_raises = None,
        recvfrom_result = Inl SocketTimeout\<rparr>"
  have cur: "current_run_status_en utf8_decode_ignore (lit ''a'') ?env = Failed"
    by (simp add: current_run_status_en_def receive_en_def)
  have reg: "map_of ?ps (lit ''a'') = Some \<lparr>state = Ok, since = Some 5\<rparr>"
    by simp
  note upd = status_update [OF reg, of utf8_decode_ignore ?env 7 True "lit ''t''"
      "\<lambda>t. lit ''seven''"]
  from upd have m: "map_of (send_options_en utf8_decode_ignore ?ps (lit ''a'') ?env 7) =
      (map_of ?ps)(lit ''a'' \<mapsto> \<lparr>state = Failed, since = Some 7\<rparr>)"
    and k: "map fst (send_options_en utf8_decode_ignore ?ps (lit ''a'') ?env 7) = map fst ?ps"
    and p: "send_options_print_en True (lit ''t'') (\<lambda>t. lit ''seven'') utf8_decode_ignore ?ps
        (lit ''a'') ?env 7
      = Some (lit ''['' @ lit ''t'' @ lit ''] STATUS CHANGE: '' @ lit ''a''
                @ lit '' changed from '' @ [39] @ status_str Ok @ [39]
                @ lit '' to '' @ [39] @ status_str Failed @ [39]
                @ lit '' at '' @ lit ''seven'' @ lit ''.'')"
    by (simp_all add: cur)
  from k obtain v where "send_options_en utf8_decode_ignore ?ps (lit ''a'') ?env 7 = [(lit ''a'', v)]"
    by (cases "send_options_en utf8_decode_ignore ?ps (lit ''a'') ?env 7") auto
  with m have "send_options_en utf8_decode_ignore ?ps (lit ''a'') ?env 7
      = [(lit ''a'', \<lparr>state = Failed, since = Some 7\<rparr>)]"
    by (auto simp: fun_eq_iff split: if_splits)
  with p show ?thesis
    by (simp add: status_str_def lit_def)
qed

section \<open>The invariant of the timestamps\<close>

lemma init_status_lookup_aux:
  "map_of (foldl (\<lambda>d ip. AList.update ip v d) d0 ips) ip =
     (if ip \<in> set ips then Some v else map_of d0 ip)"
  by (induction ips arbitrary: d0) (auto simp: update_conv')

lemma init_status_lookup:
  "ip \<in> set target_ips \<Longrightarrow>
     map_of (init_status target_ips) ip = Some \<lparr>state = Unknown, since = None\<rparr>"
  by (simp add: init_status_def init_status_lookup_aux)

lemma send_options_en_other:
  "target_ip \<noteq> ip \<Longrightarrow>
     map_of (send_options_en decode ps target_ip env now) ip = map_of ps ip"
  by (simp add: send_options_en_def update_status_en_def Let_def update_conv')

lemma send_options_en_lookup:
  assumes "map_of ps ip = Some \<lparr>state = s0, since = t0\<rparr>"
  shows "map_of (send_options_en decode ps ip env now) ip =
           Some (if current_run_status_en decode ip env \<noteq> s0
                 then \<lparr>state = current_run_status_en decode ip env, since = Some now\<rparr>
                 else \<lparr>state = s0, since = t0\<rparr>)"
  using assms by (simp add: send_options_en_def update_status_en_def update_conv')

lemma run_probes_en_lookup:
  "map_of ps ip = Some \<lparr>state = s0, since = t0\<rparr> \<Longrightarrow>
   map_of (run_probes_en decode ps runs) ip =
     Some \<lparr>state = last_status s0 (observed_en decode ip runs),
           since = (case most_recent_change s0 (observed_en decode ip runs) of
                      Some t \<Rightarrow> Some t | None \<Rightarrow> t0)\<rparr>"
proof (induction runs arbitrary: ps s0 t0)
  case Nil
  then show ?case by simp
next
  case (Cons r runs)
  obtain target_ip env now where r: "r = (target_ip, env, now)"
    by (cases r) auto
  show ?case
  proof (cases "target_ip = ip")
    case False
    with Cons.prems have
      "map_of (send_options_en decode ps target_ip env now) ip =
         Some \<lparr>state = s0, since = t0\<rparr>"
      by (simp add: send_options_en_other)
    from Cons.IH [OF this] False show ?thesis
      by (simp add: r)
  next
    case True
    let ?cur = "current_run_status_en decode ip env"
    show ?thesis
    proof (cases "?cur = s0")
      case same: True
      with Cons.prems have
        "map_of (send_options_en decode ps ip env now) ip =
           Some \<lparr>state = s0, since = t0\<rparr>"
        by (simp add: send_options_en_lookup)
      from Cons.IH [OF this] True same show ?thesis
        by (simp add: r split: option.splits)
    next
      case changed: False
      with Cons.prems have
        "map_of (send_options_en decode ps ip env now) ip =
           Some \<lparr>state = ?cur, since = Some now\<rparr>"
        by (simp add: send_options_en_lookup)
      from Cons.IH [OF this] True changed show ?thesis
        by (simp add: r split: option.splits)
    qed
  qed
qed

lemma most_recent_change_None:
  "most_recent_change prev obs = None \<longleftrightarrow> (\<forall>x \<in> set obs. fst x = prev)"
  by (induction prev obs rule: most_recent_change.induct) (auto split: option.splits)

lemma last_status_mem:
  "obs \<noteq> [] \<Longrightarrow> last_status prev obs \<in> fst ` set obs"
proof (induction prev obs rule: last_status.induct)
  case (1 prev)
  then show ?case by simp
next
  case (2 prev s t rest)
  then show ?case by (cases rest) auto
qed

lemma observed_en_known:
  "x \<in> set (observed_en decode ip runs) \<Longrightarrow> fst x = Ok \<or> fst x = Failed"
proof (induction decode ip runs rule: observed_en.induct)
  case (1 decode ip)
  then show ?case by simp
next
  case (2 decode ip target_ip env now runs)
  then show ?case
    using current_run_status_en_range [of decode target_ip env]
    by (auto split: if_splits)
qed

lemma observed_en_last_known:
  assumes "observed_en decode ip runs \<noteq> []"
  shows "last_status Unknown (observed_en decode ip runs) \<noteq> Unknown"
proof -
  from last_status_mem [OF assms, of Unknown]
  obtain x where "x \<in> set (observed_en decode ip runs)"
    and "last_status Unknown (observed_en decode ip runs) = fst x"
    by auto
  with observed_en_known [of x decode ip runs] show ?thesis by auto
qed

lemma observed_en_nonempty:
  "ip \<in> fst ` set runs \<Longrightarrow> observed_en decode ip runs \<noteq> []"
  by (induction decode ip runs rule: observed_en.induct) auto

lemma since_absent_iff:
  "most_recent_change Unknown (observed_en decode ip runs) = None \<longleftrightarrow>
     last_status Unknown (observed_en decode ip runs) = Unknown"
proof (cases "observed_en decode ip runs = []")
  case True
  then show ?thesis by simp
next
  case False
  then obtain x where "x \<in> set (observed_en decode ip runs)"
    by (cases "observed_en decode ip runs") auto
  moreover from this have "fst x \<noteq> Unknown"
    using observed_en_known [of x decode ip runs] by auto
  ultimately have "most_recent_change Unknown (observed_en decode ip runs) \<noteq> None"
    by (auto simp: most_recent_change_None)
  moreover have "last_status Unknown (observed_en decode ip runs) \<noteq> Unknown"
    using False by (rule observed_en_last_known)
  ultimately show ?thesis by simp
qed

text \<open>
  C3. From the initial dictionary (every configured target \<open>'unknown'\<close> with no
  timestamp) and after any sequence of probe runs, the entry of a configured target has no
  timestamp exactly when its status is \<open>'unknown'\<close>; its timestamp is that of the most
  recent status change among the runs for that target, and its status is the last one
  observed.
\<close>

theorem since_invariant:
  "\<forall>ip \<in> set target_ips.
     \<exists>info. map_of (run_probes_en decode (init_status target_ips) runs) ip = Some info
       \<and> (since info = None \<longleftrightarrow> state info = Unknown)
       \<and> since info = most_recent_change Unknown (observed_en decode ip runs)
       \<and> state info = last_status Unknown (observed_en decode ip runs)"
proof
  fix ip assume "ip \<in> set target_ips"
  then have "map_of (init_status target_ips) ip = Some \<lparr>state = Unknown, since = None\<rparr>"
    by (rule init_status_lookup)
  from run_probes_en_lookup [OF this, of decode runs]
  show "\<exists>info. map_of (run_probes_en decode (init_status target_ips) runs) ip = Some info
       \<and> (since info = None \<longleftrightarrow> state info = Unknown)
       \<and> since info = most_recent_change Unknown (observed_en decode ip runs)
       \<and> state info = last_status Unknown (observed_en decode ip runs)"
    using since_absent_iff [of decode ip runs]
    by (cases "most_recent_change Unknown (observed_en decode ip runs)") auto
qed

text \<open>
  C7. No run of the probe leaves \<open>current_run_status\<close> at \<open>'unknown'\<close>, whatever the
  network does; so after a first cycle, which probes every configured target, no
  configured target is stored as \<open>'unknown'\<close>.
\<close>

theorem first_cycle_known:
  "(current_run_status_en decode target_ip env \<noteq> Unknown)
   \<and> (map fst runs = target_ips \<longrightarrow>
       (\<forall>ip \<in> set target_ips.
          \<exists>info. map_of (run_probes_en decode (init_status target_ips) runs) ip = Some info
            \<and> state info \<noteq> Unknown))"
proof (intro conjI impI ballI)
  show "current_run_status_en decode target_ip env \<noteq> Unknown"
    using current_run_status_en_range [of decode target_ip env] by auto
next
  fix ip assume runs: "map fst runs = target_ips" and ip: "ip \<in> set target_ips"
  from ip have "map_of (init_status target_ips) ip = Some \<lparr>state = Unknown, since = None\<rparr>"
    by (rule init_status_lookup)
  note look = run_probes_en_lookup [OF this, of decode runs]
  from runs ip have "ip \<in> fst ` set runs" by auto
  then have ne: "observed_en decode ip runs \<noteq> []"
    by (rule observed_en_nonempty)
  have "last_status Unknown (observed_en decode ip runs) \<noteq> Unknown"
    using ne by (rule observed_en_last_known)
  with look show "\<exists>info. map_of (run_probes_en decode (init_status target_ips) runs) ip = Some info
            \<and> state info \<noteq> Unknown"
    by simp
qed


theorem since_invariant_witness:
  "lit ''172.16.31.144'' \<in> set TARGET_IPS
   \<and> map_of (run_probes_en (map unat) (init_status TARGET_IPS)
        [(lit ''172.16.31.144'',
          \<lparr>socket_raises = None, sendto_raises = None, settimeout_raises = None,
            recvfrom_result = Inl SocketTimeout\<rparr>, 100),
         (lit ''172.16.31.144'',
          \<lparr>socket_raises = None, sendto_raises = Some OSError, settimeout_raises = None,
            recvfrom_result = Inl SocketTimeout\<rparr>, 110)])
       (lit ''172.16.31.144'')
     = Some \<lparr>state = Failed, since = Some 100\<rparr>"
proof -
  let ?ip = "lit ''172.16.31.144''"
  let ?runs = "[(?ip, \<lparr>socket_raises = None, sendto_raises = None, settimeout_raises = None,
            recvfrom_result = Inl SocketTimeout\<rparr>, 100::real),
         (?ip, \<lparr>socket_raises = None, sendto_raises = Some OSError, settimeout_raises = None,
            recvfrom_result = Inl SocketTimeout\<rparr>, 110)]"
  have mem: "?ip \<in> set TARGET_IPS"
    by (simp add: TARGET_IPS_def)
  have obs: "observed_en (map unat) ?ip ?runs = [(Failed, 100), (Failed, 110)]"
    by (simp add: current_run_status_en_def receive_en_def outer_handler_def)
  from since_invariant [of TARGET_IPS "map unat" ?runs] mem
  obtain info where
    "map_of (run_probes_en (map unat) (init_status TARGET_IPS) ?runs) ?ip = Some info"
    "since info = most_recent_change Unknown (observed_en (map unat) ?ip ?runs)"
    "state info = last_status Unknown (observed_en (map unat) ?ip ?runs)"
    by blast
  then have "map_of (run_probes_en (map unat) (init_status TARGET_IPS) ?runs) ?ip
               = Some \<lparr>state = Failed, since = Some 100\<rparr>"
    unfolding obs by (cases info) simp
  with mem show ?thesis by simp
qed

theorem first_cycle_known_witness:
  "map fst
     [(lit ''172.16.31.144'',
       \<lparr>socket_raises = None, sendto_raises = None, settimeout_raises = None,
         recvfrom_result = Inl SocketTimeout\<rparr>, 100::real),
      (lit ''192.168.13.101'',
       \<lparr>socket_raises = Some OSError, sendto_raises = None, settimeout_raises = None,
         recvfrom_result = Inl SocketTimeout\<rparr>, 101)] = TARGET_IPS
   \<and> (\<exists>info. map_of (run_probes_en (map unat) (init_status TARGET_IPS)
        [(lit ''172.16.31.144'',
          \<lparr>socket_raises = None, sendto_raises = None, settimeout_raises = None,
            recvfrom_result = Inl SocketTimeout\<rparr>, 100),
         (lit ''192.168.13.101'',
          \<lparr>socket_raises = Some OSError, sendto_raises = None, settimeout_raises = None,
            recvfrom_result = Inl SocketTimeout\<rparr>, 101)])
       (lit ''192.168.13.101'') = Some info \<and> state info \<noteq> Unknown)"
proof -
  let ?runs = "[(lit ''172.16.31.144'',
       \<lparr>socket_raises = None, sendto_raises = None, settimeout_raises = None,
         recvfrom_result = Inl SocketTimeout\<rparr>, 100::real),
      (lit ''192.168.13.101'',
       \<lparr>socket_raises = Some OSError, sendto_raises = None, settimeout_raises = None,
         recvfrom_result = Inl SocketTimeout\<rparr>, 101)]"
  have runs: "map fst ?runs = TARGET_IPS"
    by (simp add: TARGET_IPS_def)
  have mem: "lit ''192.168.13.101'' \<in> set TARGET_IPS"
    by (simp add: TARGET_IPS_def)
  from first_cycle_known [where decode = "map unat" and runs = ?runs
      and target_ips = TARGET_IPS and target_ip = "lit ''192.168.13.101''"
      and env = "\<lparr>socket_raises = Some OSError, sendto_raises = None,
        settimeout_raises = None, recvfrom_result = Inl SocketTimeout\<rparr>"] runs mem
  show ?thesis by blast
qed

section \<open>The duration string\<close>

lemma py_int_of_int: "py_int (of_int k) = k"
  by (simp add: py_int_def)

lemma divmod_minutes:
  "py_divmod d 60 = (of_int (\<lfloor>d\<rfloor> div 60), d - 60 * of_int (\<lfloor>d\<rfloor> div 60))"
proof -
  have "\<lfloor>d / 60\<rfloor> = \<lfloor>d\<rfloor> div 60"
    using floor_divide_real_eq_div [of 60 d] by simp
  then show ?thesis by (simp add: py_divmod_def)
qed

lemma divmod_hours:
  "py_divmod (of_int k) 60 = (of_int (k div 60), of_int (k mod 60))"
proof -
  have "\<lfloor>(of_int k :: real) / 60\<rfloor> = k div 60"
    using floor_divide_of_int_eq [of k 60, where ?'a = real] by simp
  moreover have "(of_int k :: real) - 60 * of_int (k div 60) = of_int (k - 60 * (k div 60))"
    by simp
  moreover have "k - 60 * (k div 60) = k mod 60"
    by (simp add: minus_mult_div_eq_mod)
  ultimately show ?thesis by (simp add: py_divmod_def)
qed

lemma py_int_seconds:
  "py_int (d - 60 * of_int (\<lfloor>d\<rfloor> div 60)) = \<lfloor>d\<rfloor> mod 60"
proof -
  have le: "60 * (\<lfloor>d\<rfloor> div 60) \<le> \<lfloor>d\<rfloor>"
    by (simp add: minus_mod_eq_mult_div [symmetric])
  have "real_of_int (60 * (\<lfloor>d\<rfloor> div 60)) \<le> d"
    using le by linarith
  then have nonneg: "0 \<le> d - 60 * of_int (\<lfloor>d\<rfloor> div 60)"
    by simp
  have "\<lfloor>d - of_int (60 * (\<lfloor>d\<rfloor> div 60))\<rfloor> = \<lfloor>d\<rfloor> - 60 * (\<lfloor>d\<rfloor> div 60)"
    by (rule floor_diff_of_int)
  also have "\<dots> = \<lfloor>d\<rfloor> mod 60"
    by (simp add: minus_mult_div_eq_mod)
  finally show ?thesis using nonneg by (simp add: py_int_def)
qed

lemma format_duration_en_fields:
  "format_duration_en d =
     format_02d (\<lfloor>d\<rfloor> div 3600) @ lit '':'' @ format_02d (\<lfloor>d\<rfloor> div 60 mod 60) @ lit '':''
       @ format_02d (\<lfloor>d\<rfloor> mod 60)"
proof -
  have "\<lfloor>d\<rfloor> div 60 div 60 = \<lfloor>d\<rfloor> div 3600"
    by (simp add: zdiv_zmult2_eq [symmetric])
  then show ?thesis
    by (simp add: format_duration_en_def divmod_minutes divmod_hours py_int_of_int
        py_int_seconds)
qed

lemma digits_small: "n < 10 \<Longrightarrow> digits n = [48 + n]"
  by (simp add: digits.simps)

lemma digits_zero: "digits 0 = [48]"
  by (simp add: digits.simps)

lemma digits_two: "10 \<le> n \<Longrightarrow> n < 100 \<Longrightarrow> digits n = [48 + n div 10, 48 + n mod 10]"
  by (subst digits.simps) (simp add: digits_small)

lemma format_02d_length:
  assumes "0 \<le> k" "k < 100"
  shows "length (format_02d k) = 2"
proof (cases "nat k < 10")
  case True
  with assms show ?thesis by (simp add: format_02d_def digits_small)
next
  case False
  with assms have "10 \<le> nat k" "nat k < 100" by auto
  with assms show ?thesis by (simp add: format_02d_def digits_two)
qed

lemma format_duration_en_3661: "format_duration_en 3661 = lit ''01:01:01''"
  by (simp add: format_duration_en_fields format_02d_def digits_small lit_def)


lemma format_duration_en_90000: "format_duration_en 90000 = lit ''25:00:00''"
  by (simp add: format_duration_en_fields format_02d_def digits_zero digits_two lit_def)

lemma digits_three:
  "100 \<le> n \<Longrightarrow> n < 1000 \<Longrightarrow> digits n = [48 + n div 100, 48 + n div 10 mod 10, 48 + n mod 10]"
  by (subst digits.simps) (simp add: digits_two div_mult2_eq [symmetric] less_mult_imp_div_less)

lemma format_duration_en_360000: "format_duration_en 360000 = lit ''100:00:00''"
  by (simp add: format_duration_en_fields format_02d_def digits_zero digits_three lit_def)

lemma report_line_duration:
  "report_lines_en strftime (T + 3661) [(ip, \<lparr>state = Failed, since = Some T\<rparr>)] =
     (if T = 0 then [lit ''- '' @ ip @ lit '': unavailable (exact failure time unknown)'']
      else [lit ''- '' @ ip @ lit '': unavailable since '' @ strftime T
              @ lit '' (duration: '' @ lit ''01:01:01'' @ lit '')''])"
  by (simp add: format_duration_en_3661)

text \<open>
  C5. The duration string of the report is hours, minutes and seconds of the whole
  seconds of the duration, separated by colons: minutes and seconds always take two
  characters, and the hours are the full count, never reduced modulo 24. For
  \<open>since = T\<close> and \<open>now = T + 3661\<close> it is \<open>01:01:01\<close>, for \<open>now = T + 90000\<close> it is
  \<open>25:00:00\<close>, and 360000 seconds give \<open>100:00:00\<close>.
\<close>

theorem duration_format:
  "format_duration_en ((T + 3661) - T) = lit ''01:01:01''
   \<and> format_duration_en ((T + 90000) - T) = lit ''25:00:00''
   \<and> format_duration_en ((T + 360000) - T) = lit ''100:00:00''
   \<and> format_duration_en d =
         format_02d (\<lfloor>d\<rfloor> div 3600) @ lit '':'' @ format_02d (\<lfloor>d\<rfloor> div 60 mod 60) @ lit '':''
           @ format_02d (\<lfloor>d\<rfloor> mod 60)
   \<and> length (format_02d (\<lfloor>d\<rfloor> div 60 mod 60)) = 2
   \<and> length (format_02d (\<lfloor>d\<rfloor> mod 60)) = 2"
proof (intro conjI)
  show "format_duration_en ((T + 3661) - T) = lit ''01:01:01''"
    by (simp add: format_duration_en_3661)
  show "format_duration_en ((T + 90000) - T) = lit ''25:00:00''"
    by (simp add: format_duration_en_90000)
  show "format_duration_en ((T + 360000) - T) = lit ''100:00:00''"
    by (simp add: format_duration_en_360000)
  show "format_duration_en d =
         format_02d (\<lfloor>d\<rfloor> div 3600) @ lit '':'' @ format_02d (\<lfloor>d\<rfloor> div 60 mod 60) @ lit '':''
           @ format_02d (\<lfloor>d\<rfloor> mod 60)"
    by (rule format_duration_en_fields)
  show "length (format_02d (\<lfloor>d\<rfloor> div 60 mod 60)) = 2"
    by (rule format_02d_length) simp_all
  show "length (format_02d (\<lfloor>d\<rfloor> mod 60)) = 2"
    by (rule format_02d_length) simp_all
qed

theorem duration_format_witness:
  "format_duration_en ((1700000000 + 3661) - 1700000000) = lit ''01:01:01''
   \<and> format_duration_en 86399 = lit ''23:59:59''"
proof -
  have "format_duration_en 86399 =
          format_02d (\<lfloor>86399 :: real\<rfloor> div 3600) @ lit '':''
            @ format_02d (\<lfloor>86399 :: real\<rfloor> div 60 mod 60) @ lit '':''
            @ format_02d (\<lfloor>86399 :: real\<rfloor> mod 60)"
    using duration_format [of 0 86399] by blast
  then have "format_duration_en 86399 = lit ''23:59:59''"
    by (simp add: format_02d_def digits_two lit_def)
  moreover have "format_duration_en ((1700000000 + 3661) - 1700000000) = lit ''01:01:01''"
    using duration_format [of 1700000000 0] by blast
  ultimately show ?thesis by simp
qed

section \<open>The report block of the English script\<close>

lemma notify_alert_en_result: "notify_alert_en subject body telegram_message = Inr []"
  by (simp add: notify_alert_en_def send_email_alert_en_def send_telegram_alert_en_def
      split: option.splits)

lemma report_en_returns:
  "\<exists>r. report_en strftime stamp interval ps last_report now = Inr r \<and> deliveries r = []"
  by (simp add: report_en_def notify_alert_en_result Let_def)



lemma monitor_cycle_en_returns:
  "\<exists>r. monitor_cycle_en decode strftime stamp interval ps last_report clock runs = Inr r
     \<and> cycle_status r = run_probes_en decode ps runs
     \<and> wait_time r = wait_time_en (at_start clock) (at_end clock)
     \<and> sleep_call r = (if wait_time_en (at_start clock) (at_end clock) > 0
                       then Some (wait_time_en (at_start clock) (at_end clock)) else None)"
proof -
  obtain r where "report_en strftime stamp interval (run_probes_en decode ps runs) last_report
      (at_report clock) = Inr r"
    using report_en_returns by blast
  then show ?thesis
    by (simp add: monitor_cycle_en_def Let_def)
qed

section \<open>The wait between cycles\<close>

text \<open>
  C6, as amended. The wait after a cycle is exactly \<open>max(0, INTERVAL - elapsed_time)\<close>;
  \<open>time.sleep\<close> is called with the remainder when the cycle took less than the interval
  and is not called at all otherwise. The next cycle therefore starts that wait after the
  probes and the report block of the prior cycle have finished: \<open>max(INTERVAL, duration)\<close>
  after the prior cycle began when the report block takes no time.
\<close>

theorem sleep_computation:
  "wait_time_en start finish = max 0 (INTERVAL - (finish - start))
   \<and> (\<exists>r. monitor_cycle_en decode strftime stamp interval ps last_report clock runs = Inr r
        \<and> wait_time r = max 0 (INTERVAL - (at_end clock - at_start clock))
        \<and> sleep_call r =
            (if at_end clock - at_start clock < INTERVAL
             then Some (INTERVAL - (at_end clock - at_start clock)) else None))
   \<and> next_start_time_en start probe_duration report_duration =
        start + probe_duration + report_duration + wait_time_en start (start + probe_duration)
   \<and> next_start_time_en start probe_duration 0 = start + max INTERVAL probe_duration"
proof (intro conjI)
  show "wait_time_en start finish = max 0 (INTERVAL - (finish - start))"
    by (simp add: wait_time_en_def)
  from monitor_cycle_en_returns [of decode strftime stamp interval ps last_report clock runs]
  show "\<exists>r. monitor_cycle_en decode strftime stamp interval ps last_report clock runs = Inr r
        \<and> wait_time r = max 0 (INTERVAL - (at_end clock - at_start clock))
        \<and> sleep_call r =
            (if at_end clock - at_start clock < INTERVAL
             then Some (INTERVAL - (at_end clock - at_start clock)) else None)"
    by (auto simp: wait_time_en_def max_def)
  show "next_start_time_en start probe_duration report_duration =
        start + probe_duration + report_duration + wait_time_en start (start + probe_duration)"
    by (auto simp: next_start_time_en_def wait_time_en_def max_def Let_def)
  show "next_start_time_en start probe_duration 0 = start + max INTERVAL probe_duration"
    by (auto simp: next_start_time_en_def wait_time_en_def max_def Let_def)
qed

text \<open>
  C6 as stated fails: with a cycle that takes 2 seconds the wait is 8 seconds, and the next
  cycle starts 10 seconds after the prior one began, not 8.
\<close>

theorem next_cycle_counterexample:
  "\<not> (next_start_time_en 0 2 0 = 0 + wait_time_en 0 (0 + 2))"
  by (simp add: next_start_time_en_def wait_time_en_def INTERVAL_def)

theorem sleep_computation_witness:
  "wait_time_en 100 103 = 7 \<and> wait_time_en 100 112 = 0
   \<and> next_start_time_en 100 3 0 = 110 \<and> next_start_time_en 100 12 0 = 112"
  using sleep_computation [of 100 103 "map unat" "\<lambda>t. []" "[]" 3600 "[]" 0
      "\<lparr>at_start = 100, at_end = 103, at_report = 103\<rparr>" "[]" 3 0]
    sleep_computation [of 100 112 "map unat" "\<lambda>t. []" "[]" 3600 "[]" 0
      "\<lparr>at_start = 100, at_end = 112, at_report = 112\<rparr>" "[]" 12 0]
  by (simp add: INTERVAL_def)

section \<open>Failures of the alert functions\<close>

lemma send_email_alert_result:
  "mime_text_raises body = None \<Longrightarrow>
     send_email_alert cfg env subject body =
       Inr (case smtp_session cfg env of
              Inl e \<Rightarrow> EmailFailed e
            | Inr _ \<Rightarrow> EmailSent subject body)"
  by (simp add: send_email_alert_def split: sum.splits)

lemma send_email_alert_print_result:
  "mime_text_raises body = None \<Longrightarrow>
     send_email_alert_print DEBUG cfg env subject body =
       (if DEBUG
        then [case smtp_session cfg env of
                Inl e \<Rightarrow> EmailErrorLine e
              | Inr _ \<Rightarrow> EmailSentLine subject]
        else [])"
  by (simp add: send_email_alert_print_def split: sum.splits)

lemma mime_text_raises_cases:
  "mime_text_raises body = None \<or> mime_text_raises body = Some UnicodeEncodeError"
  by (simp add: mime_text_raises_def)

lemma send_email_alert_Inl:
  "send_email_alert cfg env subject body = Inl e \<Longrightarrow> e = UnicodeEncodeError"
  using mime_text_raises_cases [of body]
  by (auto simp: send_email_alert_def split: sum.splits option.splits)

lemma send_telegram_alert_result:
  "send_telegram_alert tenv message =
       Inr (if truthy (TELEGRAM_BOT_TOKEN tenv) \<and> truthy (TELEGRAM_CHAT_ID tenv)
               \<and> TELEGRAM_BOT_TOKEN tenv \<noteq> Some (lit ''YOUR_BOT_TOKEN'')
               \<and> TELEGRAM_CHAT_ID tenv \<noteq> Some (lit ''YOUR_CHAT_ID'')
            then (case post_result tenv of
                    Inl e \<Rightarrow> TelegramFailed e
                  | Inr (status_code, reply) \<Rightarrow>
                      if status_code = 200 then TelegramSent message
                      else TelegramRejected reply)
            else TelegramNotConfigured)"
  by (auto simp: send_telegram_alert_def split: sum.splits prod.splits)

lemma send_telegram_alert_print_result:
  "send_telegram_alert_print tenv message =
       (if truthy (TELEGRAM_BOT_TOKEN tenv) \<and> truthy (TELEGRAM_CHAT_ID tenv)
               \<and> TELEGRAM_BOT_TOKEN tenv \<noteq> Some (lit ''YOUR_BOT_TOKEN'')
               \<and> TELEGRAM_CHAT_ID tenv \<noteq> Some (lit ''YOUR_CHAT_ID'')
        then (case post_result tenv of
                Inl e \<Rightarrow> [TelegramExceptionLine e]
              | Inr (status_code, reply) \<Rightarrow>
                  if status_code = 200 then [TelegramSentLine]
                  else [TelegramRejectedLine reply])
        else [])"
  by (auto simp: send_telegram_alert_print_def split: sum.splits prod.splits)

lemma send_telegram_alert_returns:
  "\<exists>d. send_telegram_alert env message = Inr d"
  by (simp add: send_telegram_alert_result)

lemma notify_alert_ru_returns:
  assumes "mime_text_raises body = None"
  shows "\<exists>ds. notify_alert_ru alerts subject body telegram_message = Inr ds"
proof -
  obtain d where d: "send_email_alert (smtp_cfg alerts) (smtp alerts) subject body = Inr d"
    using assms by (simp add: send_email_alert_result)
  show ?thesis
  proof (cases telegram_message)
    case None
    then show ?thesis by (simp add: notify_alert_ru_def d truthy_def)
  next
    case (Some m)
    obtain d' where "send_telegram_alert (telegram alerts) m = Inr d'"
      using send_telegram_alert_returns by blast
    with Some show ?thesis by (simp add: notify_alert_ru_def d)
  qed
qed

lemma notify_alert_ru_calls:
  assumes "message \<noteq> []" and "mime_text_raises body = None"
  shows "\<exists>mail d. notify_alert_ru alerts subject body (Some message) = Inr [mail, d]
           \<and> send_email_alert (smtp_cfg alerts) (smtp alerts) subject body = Inr mail
           \<and> send_telegram_alert (telegram alerts) message = Inr d"
proof -
  obtain mail where m: "send_email_alert (smtp_cfg alerts) (smtp alerts) subject body = Inr mail"
    using assms(2) by (simp add: send_email_alert_result)
  obtain d where d: "send_telegram_alert (telegram alerts) message = Inr d"
    using send_telegram_alert_returns by blast
  from assms(1) show ?thesis
    by (simp add: notify_alert_ru_def m d truthy_def ENABLE_EMAIL_ALERTS_def
        ENABLE_TELEGRAM_ALERTS_def)
qed

lemma notify_alert_ru_raises:
  assumes "mime_text_raises body = Some e"
  shows "notify_alert_ru alerts subject body telegram_message = Inl e"
  using assms
  by (simp add: notify_alert_ru_def send_email_alert_def ENABLE_EMAIL_ALERTS_def)

lemma notify_alert_ru_cases:
  assumes "message \<noteq> []"
  shows "(\<exists>mail d. notify_alert_ru alerts subject body (Some message) = Inr [mail, d])
       \<or> notify_alert_ru alerts subject body (Some message) = Inl UnicodeEncodeError"
  using mime_text_raises_cases [of body] notify_alert_ru_calls [OF assms, of body alerts subject]
    notify_alert_ru_raises [of body UnicodeEncodeError alerts subject "Some message"]
  by blast

lemma report_lines_ru_empty:
  "report_lines_ru strftime now ps = [] \<longleftrightarrow> (\<forall>x \<in> set ps. state (snd x) \<noteq> Failed)"
  by (induction strftime now ps rule: report_lines_ru.induct) auto

lemma report_ru_cases:
  "(\<exists>r. report_ru alerts strftime stamp interval ps last_report now = Inr r
      \<and> (fired r \<longleftrightarrow> now - last_report \<ge> of_int interval)
      \<and> (notified r \<noteq> None \<longleftrightarrow>
           now - last_report \<ge> of_int interval \<and> (\<exists>x \<in> set ps. state (snd x) = Failed))
      \<and> (deliveries r \<noteq> [] \<longleftrightarrow>
           now - last_report \<ge> of_int interval \<and> (\<exists>x \<in> set ps. state (snd x) = Failed))
      \<and> new_last_report_time r =
           (if now - last_report \<ge> of_int interval then now else last_report))
   \<or> (report_ru alerts strftime stamp interval ps last_report now = Inl UnicodeEncodeError
      \<and> now - last_report \<ge> of_int interval \<and> (\<exists>x \<in> set ps. state (snd x) = Failed))"
proof (cases "now - last_report \<ge> of_int interval \<and> report_lines_ru strftime now ps \<noteq> []")
  case False
  with report_lines_ru_empty [of strftime now ps] show ?thesis
    by (auto simp: report_ru_def Let_def split: if_splits)
next
  case True
  let ?message = "RU_TELEGRAM_HEAD @ join [10] (report_lines_ru strftime now ps)"
  let ?subject = "RU_SUBJECT @ stamp @ lit '')''"
  let ?body = "RU_BODY_HEAD @ join [10] (report_lines_ru strftime now ps) @ RU_BODY_TAIL"
  have "?message \<noteq> []"
    by (simp add: RU_TELEGRAM_HEAD_def)
  from notify_alert_ru_cases [OF this, of alerts ?subject ?body]
  show ?thesis
  proof
    assume "\<exists>mail d. notify_alert_ru alerts ?subject ?body (Some ?message) = Inr [mail, d]"
    then obtain mail d where
      "notify_alert_ru alerts ?subject ?body (Some ?message) = Inr [mail, d]"
      by blast
    with True report_lines_ru_empty [of strftime now ps] show ?thesis
      by (auto simp: report_ru_def Let_def)
  next
    assume "notify_alert_ru alerts ?subject ?body (Some ?message) = Inl UnicodeEncodeError"
    with True report_lines_ru_empty [of strftime now ps] show ?thesis
      by (auto simp: report_ru_def Let_def)
  qed
qed


lemma monitor_cycle_ru_cases:
  "(\<exists>r. monitor_cycle_ru alerts decode strftime stamp interval ps last_report clock runs = Inr r
      \<and> report_ru alerts strftime stamp interval (run_probes_ru decode ps runs) last_report
           (at_report clock) = Inr (cycle_report r)
      \<and> cycle_status r = run_probes_ru decode ps runs
      \<and> wait_time r = wait_time_ru (at_start clock) (at_end clock)
      \<and> sleep_call r = (if wait_time_ru (at_start clock) (at_end clock) > 0
                        then Some (wait_time_ru (at_start clock) (at_end clock)) else None))
   \<or> (monitor_cycle_ru alerts decode strftime stamp interval ps last_report clock runs
         = Inl UnicodeEncodeError
      \<and> report_ru alerts strftime stamp interval (run_probes_ru decode ps runs) last_report
           (at_report clock) = Inl UnicodeEncodeError)"
  using report_ru_cases [of alerts strftime stamp interval "run_probes_ru decode ps runs"
      last_report "at_report clock"]
  by (auto simp: monitor_cycle_ru_def Let_def)


text \<open>
  C8, as amended. A failure of the SMTP session or of the Telegram request is caught
  inside the alert function and swallowed. The Telegram failure is always printed; the
  e-mail failure is printed only when \<open>DEBUG\<close> is true. Provided the e-mail text can be
  built, \<open>notify_alert\<close> returns normally in both scripts. The only exception that can
  end a pass of the loop of the Russian script is the \<open>UnicodeEncodeError\<close> of building
  the e-mail text; a pass of the English script always returns; and the status dictionary
  after a pass is the one the probes left, independent of the alert functions.
\<close>

theorem alert_failures_swallowed:
  "(mime_text_raises body = None \<longrightarrow>
      send_email_alert cfg env subject body =
        Inr (case smtp_session cfg env of
               Inl e \<Rightarrow> EmailFailed e
             | Inr _ \<Rightarrow> EmailSent subject body)
    \<and> send_email_alert_print DEBUG cfg env subject body =
        (if DEBUG
         then [case smtp_session cfg env of
                 Inl e \<Rightarrow> EmailErrorLine e
               | Inr _ \<Rightarrow> EmailSentLine subject]
         else [])
    \<and> (\<exists>ds. notify_alert_ru alerts subject body telegram_message = Inr ds))
   \<and> send_telegram_alert tenv message =
       Inr (if truthy (TELEGRAM_BOT_TOKEN tenv) \<and> truthy (TELEGRAM_CHAT_ID tenv)
               \<and> TELEGRAM_BOT_TOKEN tenv \<noteq> Some (lit ''YOUR_BOT_TOKEN'')
               \<and> TELEGRAM_CHAT_ID tenv \<noteq> Some (lit ''YOUR_CHAT_ID'')
            then (case post_result tenv of
                    Inl e \<Rightarrow> TelegramFailed e
                  | Inr (status_code, reply) \<Rightarrow>
                      if status_code = 200 then TelegramSent message
                      else TelegramRejected reply)
            else TelegramNotConfigured)
   \<and> send_telegram_alert_print tenv message =
       (if truthy (TELEGRAM_BOT_TOKEN tenv) \<and> truthy (TELEGRAM_CHAT_ID tenv)
               \<and> TELEGRAM_BOT_TOKEN tenv \<noteq> Some (lit ''YOUR_BOT_TOKEN'')
               \<and> TELEGRAM_CHAT_ID tenv \<noteq> Some (lit ''YOUR_CHAT_ID'')
        then (case post_result tenv of
                Inl e \<Rightarrow> [TelegramExceptionLine e]
              | Inr (status_code, reply) \<Rightarrow>
                  if status_code = 200 then [TelegramSentLine]
                  else [TelegramRejectedLine reply])
        else [])
   \<and> (\<exists>ds. notify_alert_en subject body telegram_message = Inr ds)
   \<and> (\<forall>r. monitor_cycle_ru alerts decode strftime stamp interval ps last_report clock runs = Inr r
          \<longrightarrow> cycle_status r = run_probes_ru decode ps runs)
   \<and> (\<forall>e. monitor_cycle_ru alerts decode strftime stamp interval ps last_report clock runs = Inl e
          \<longrightarrow> e = UnicodeEncodeError)
   \<and> (\<exists>r. monitor_cycle_en decode strftime stamp interval ps last_report clock runs = Inr r
          \<and> cycle_status r = run_probes_en decode ps runs)"
proof (intro conjI impI allI)
  assume ok: "mime_text_raises body = None"
  show "send_email_alert cfg env subject body =
        Inr (case smtp_session cfg env of
               Inl e \<Rightarrow> EmailFailed e
             | Inr _ \<Rightarrow> EmailSent subject body)"
    using ok by (rule send_email_alert_result)
  show "send_email_alert_print DEBUG cfg env subject body =
        (if DEBUG
         then [case smtp_session cfg env of
                 Inl e \<Rightarrow> EmailErrorLine e
               | Inr _ \<Rightarrow> EmailSentLine subject]
         else [])"
    using ok by (rule send_email_alert_print_result)
  show "\<exists>ds. notify_alert_ru alerts subject body telegram_message = Inr ds"
    using ok by (rule notify_alert_ru_returns)
next
  show "send_telegram_alert tenv message =
       Inr (if truthy (TELEGRAM_BOT_TOKEN tenv) \<and> truthy (TELEGRAM_CHAT_ID tenv)
               \<and> TELEGRAM_BOT_TOKEN tenv \<noteq> Some (lit ''YOUR_BOT_TOKEN'')
               \<and> TELEGRAM_CHAT_ID tenv \<noteq> Some (lit ''YOUR_CHAT_ID'')
            then (case post_result tenv of
                    Inl e \<Rightarrow> TelegramFailed e
                  | Inr (status_code, reply) \<Rightarrow>
                      if status_code = 200 then TelegramSent message
                      else TelegramRejected reply)
            else TelegramNotConfigured)"
    by (rule send_telegram_alert_result)
  show "send_telegram_alert_print tenv message =
       (if truthy (TELEGRAM_BOT_TOKEN tenv) \<and> truthy (TELEGRAM_CHAT_ID tenv)
               \<and> TELEGRAM_BOT_TOKEN tenv \<noteq> Some (lit ''YOUR_BOT_TOKEN'')
               \<and> TELEGRAM_CHAT_ID tenv \<noteq> Some (lit ''YOUR_CHAT_ID'')
        then (case post_result tenv of
                Inl e \<Rightarrow> [TelegramExceptionLine e]
              | Inr (status_code, reply) \<Rightarrow>
                  if status_code = 200 then [TelegramSentLine]
                  else [TelegramRejectedLine reply])
        else [])"
    by (rule send_telegram_alert_print_result)
  show "\<exists>ds. notify_alert_en subject body telegram_message = Inr ds"
    by (simp add: notify_alert_en_result)
  show "\<exists>r. monitor_cycle_en decode strftime stamp interval ps last_report clock runs = Inr r
          \<and> cycle_status r = run_probes_en decode ps runs"
    using monitor_cycle_en_returns [of decode strftime stamp interval ps last_report clock runs]
    by blast
next
  fix r
  assume "monitor_cycle_ru alerts decode strftime stamp interval ps last_report clock runs = Inr r"
  then show "cycle_status r = run_probes_ru decode ps runs"
    using monitor_cycle_ru_cases [of alerts decode strftime stamp interval ps last_report clock runs]
    by auto
next
  fix e
  assume "monitor_cycle_ru alerts decode strftime stamp interval ps last_report clock runs = Inl e"
  then show "e = UnicodeEncodeError"
    using monitor_cycle_ru_cases [of alerts decode strftime stamp interval ps last_report clock runs]
    by auto
qed

text \<open>
  C8 as stated fails: for the body that is the one code point U+D800 the exception of
  \<open>MIMEText\<close> leaves \<open>send_email_alert\<close> and \<open>notify_alert\<close>; and with \<open>DEBUG\<close> false a
  failure of the SMTP connection is swallowed without a line being printed.
\<close>

theorem alert_failures_counterexample:
  "send_email_alert \<lparr>SMTP_USERNAME = None, SMTP_PASSWORD = None\<rparr>
     \<lparr>connect_raises = None, ehlo_raises = None, starttls_raises = None,
      ehlo_again_raises = None, login_raises = None, sendmail_raises = None,
      quit_raises = None\<rparr> (lit ''subject'') [55296] = Inl UnicodeEncodeError
   \<and> notify_alert_ru
       \<lparr>smtp_cfg = \<lparr>SMTP_USERNAME = None, SMTP_PASSWORD = None\<rparr>,
        smtp = \<lparr>connect_raises = None, ehlo_raises = None, starttls_raises = None,
          ehlo_again_raises = None, login_raises = None, sendmail_raises = None,
          quit_raises = None\<rparr>,
        telegram = \<lparr>TELEGRAM_BOT_TOKEN = None, TELEGRAM_CHAT_ID = None,
          post_result = Inl RequestException\<rparr>\<rparr>
       (lit ''subject'') [55296] None = Inl UnicodeEncodeError
   \<and> send_email_alert \<lparr>SMTP_USERNAME = None, SMTP_PASSWORD = None\<rparr>
     \<lparr>connect_raises = Some OSError, ehlo_raises = None, starttls_raises = None,
      ehlo_again_raises = None, login_raises = None, sendmail_raises = None,
      quit_raises = None\<rparr> (lit ''subject'') (lit ''body'') = Inr (EmailFailed OSError)
   \<and> send_email_alert_print False \<lparr>SMTP_USERNAME = None, SMTP_PASSWORD = None\<rparr>
     \<lparr>connect_raises = Some OSError, ehlo_raises = None, starttls_raises = None,
      ehlo_again_raises = None, login_raises = None, sendmail_raises = None,
      quit_raises = None\<rparr> (lit ''subject'') (lit ''body'') = []"
  by (simp add: send_email_alert_def send_email_alert_print_def notify_alert_ru_def
      mime_text_raises_def smtp_session_def truthy_def lit_def ENABLE_EMAIL_ALERTS_def)

theorem alert_failures_swallowed_witness:
  "mime_text_raises (lit ''body'') = None
   \<and> send_email_alert \<lparr>SMTP_USERNAME = None, SMTP_PASSWORD = None\<rparr>
     \<lparr>connect_raises = Some OSError, ehlo_raises = None, starttls_raises = None,
      ehlo_again_raises = None, login_raises = None, sendmail_raises = None,
      quit_raises = None\<rparr> (lit ''subject'') (lit ''body'') = Inr (EmailFailed OSError)
   \<and> send_email_alert_print True \<lparr>SMTP_USERNAME = None, SMTP_PASSWORD = None\<rparr>
     \<lparr>connect_raises = Some OSError, ehlo_raises = None, starttls_raises = None,
      ehlo_again_raises = None, login_raises = None, sendmail_raises = None,
      quit_raises = None\<rparr> (lit ''subject'') (lit ''body'') = [EmailErrorLine OSError]
   \<and> send_telegram_alert
       \<lparr>TELEGRAM_BOT_TOKEN = Some (lit ''123:abc''), TELEGRAM_CHAT_ID = Some (lit ''42''),
        post_result = Inl RequestException\<rparr> (lit ''message'')
     = Inr (TelegramFailed RequestException)
   \<and> send_telegram_alert_print
       \<lparr>TELEGRAM_BOT_TOKEN = Some (lit ''123:abc''), TELEGRAM_CHAT_ID = Some (lit ''42''),
        post_result = Inl RequestException\<rparr> (lit ''message'')
     = [TelegramExceptionLine RequestException]"
proof -
  have ok: "mime_text_raises (lit ''body'') = None"
    by (simp add: mime_text_raises_def lit_def)
  from ok show ?thesis
    using alert_failures_swallowed [where cfg = "\<lparr>SMTP_USERNAME = None, SMTP_PASSWORD = None\<rparr>"
      and env = "\<lparr>connect_raises = Some OSError, ehlo_raises = None, starttls_raises = None,
        ehlo_again_raises = None, login_raises = None, sendmail_raises = None,
        quit_raises = None\<rparr>"
      and subject = "lit ''subject''" and body = "lit ''body''" and DEBUG = True
      and tenv = "\<lparr>TELEGRAM_BOT_TOKEN = Some (lit ''123:abc''), TELEGRAM_CHAT_ID = Some (lit ''42''),
          post_result = Inl RequestException\<rparr>"
      and message = "lit ''message''"]
    by (simp add: smtp_session_def truthy_def lit_def)
qed

section \<open>The identifiers of the OPTIONS message\<close>

lemma length_hex_fixed: "length (hex_fixed n x) = n"
  by (induction n arbitrary: x) auto

lemma hex_digit_inj: "a < 16 \<Longrightarrow> b < 16 \<Longrightarrow> hex_digit a = hex_digit b \<Longrightarrow> a = b"
  unfolding hex_digit_def by (cases "a < 10"; cases "b < 10") simp_all

lemma hex_fixed_inj:
  "hex_fixed n x = hex_fixed n y \<Longrightarrow> x mod 16 ^ n = y mod 16 ^ n"
proof (induction n arbitrary: x y)
  case 0
  then show ?case by simp
next
  case (Suc n)
  from Suc.prems have eq: "hex_fixed n (x div 16) = hex_fixed n (y div 16)"
    and dig: "hex_digit (x mod 16) = hex_digit (y mod 16)"
    by (simp_all add: length_hex_fixed)
  from eq have hi: "(x div 16) mod 16 ^ n = (y div 16) mod 16 ^ n"
    by (rule Suc.IH)
  have "x mod 16 < 16" "y mod 16 < 16"
    by simp_all
  then have lo: "x mod 16 = y mod 16"
    using dig by (rule hex_digit_inj)
  have split: "z mod 16 ^ Suc n = 16 * ((z div 16) mod 16 ^ n) + z mod 16" for z :: nat
    by (simp add: mod_mult2_eq)
  show ?case
    by (simp only: split hi lo)
qed

lemma hex_fixed_mod: "hex_fixed n (x mod 16 ^ n) = hex_fixed n x"
proof (induction n arbitrary: x)
  case 0
  then show ?case by simp
next
  case (Suc n)
  have "(x mod 16 ^ Suc n) div 16 = (x div 16) mod 16 ^ n"
    by (simp add: mod_mult2_eq)
  moreover have "(x mod 16 ^ Suc n) mod 16 = x mod 16"
    by (simp add: mod_mod_cancel)
  ultimately show ?case using Suc.IH [of "x div 16"] by simp
qed

lemma take_hex_fixed: "take n (hex_fixed (n + k) x) = hex_fixed n (x div 16 ^ k)"
proof (induction k arbitrary: x)
  case 0
  then show ?case by (simp add: length_hex_fixed)
next
  case (Suc k)
  have "take n (hex_fixed (n + Suc k) x) = take n (hex_fixed (n + k) (x div 16))"
    by (simp add: length_hex_fixed)
  also have "\<dots> = hex_fixed n (x div 16 div 16 ^ k)"
    by (rule Suc.IH)
  also have "x div 16 div 16 ^ k = x div 16 ^ Suc k"
    by (simp add: div_mult2_eq)
  finally show ?case .
qed

lemma take8_str_uuid: "take 8 (str_uuid u) = hex_fixed 8 (unat u div 16 ^ 24)"
proof -
  have "take 8 (str_uuid u) = take 8 (hex_fixed (8 + 24) (unat u))"
    by (simp add: str_uuid_def Let_def length_hex_fixed)
  then show ?thesis by (simp only: take_hex_fixed)
qed

lemma str_uuid_hex:
  assumes "str_uuid u = str_uuid v"
  shows "hex_fixed 32 (unat u) = hex_fixed 32 (unat v)"
proof -
  let ?h = "hex_fixed 32 (unat u)" and ?g = "hex_fixed 32 (unat v)"
  have parts: "h = take 8 h @ take 4 (drop 8 h) @ take 4 (drop 12 h) @ take 4 (drop 16 h) @ drop 20 h"
    for h :: ustr
  proof -
    have "take 12 h = take 8 h @ take 4 (drop 8 h)"
      using take_add [of 8 4 h] by simp
    moreover have "take 16 h = take 12 h @ take 4 (drop 12 h)"
      using take_add [of 12 4 h] by simp
    moreover have "take 20 h = take 16 h @ take 4 (drop 16 h)"
      using take_add [of 16 4 h] by simp
    moreover have "h = take 20 h @ drop 20 h"
      by simp
    ultimately show ?thesis by (metis append.assoc)
  qed
  from assms have
    "take 8 ?h = take 8 ?g \<and> take 4 (drop 8 ?h) = take 4 (drop 8 ?g)
     \<and> take 4 (drop 12 ?h) = take 4 (drop 12 ?g) \<and> take 4 (drop 16 ?h) = take 4 (drop 16 ?g)
     \<and> drop 20 ?h = drop 20 ?g"
    by (simp add: str_uuid_def Let_def length_hex_fixed lit_def)
  then show ?thesis
    using parts [of ?h] parts [of ?g] by simp
qed

lemma str_uuid_inj: "str_uuid u = str_uuid v \<Longrightarrow> u = v"
proof -
  assume "str_uuid u = str_uuid v"
  then have "unat u mod 16 ^ 32 = unat v mod 16 ^ 32"
    by (intro hex_fixed_inj str_uuid_hex)
  moreover have "unat w < 16 ^ 32" for w :: uuid
    using unsigned_less [of w, where 'a = nat] by simp
  ultimately have "unat u = unat v" by simp
  then show "u = v" by (rule unsigned_word_eqI)
qed

lemma take8_eq_iff:
  "take 8 (str_uuid u) = take 8 (str_uuid v) \<longleftrightarrow> drop_bit 96 u = drop_bit 96 v"
proof -
  have small: "unat w div 16 ^ 24 < 16 ^ 8" for w :: uuid
  proof -
    have "unat w < 16 ^ 24 * 16 ^ 8"
      using unsigned_less [of w, where 'a = nat] by simp
    then show ?thesis
      by (simp add: less_mult_imp_div_less mult.commute)
  qed
  have "take 8 (str_uuid u) = take 8 (str_uuid v)
        \<longleftrightarrow> unat u div 16 ^ 24 = unat v div 16 ^ 24"
  proof
    assume "take 8 (str_uuid u) = take 8 (str_uuid v)"
    then have "hex_fixed 8 (unat u div 16 ^ 24) = hex_fixed 8 (unat v div 16 ^ 24)"
      by (simp only: take8_str_uuid)
    then have "(unat u div 16 ^ 24) mod 16 ^ 8 = (unat v div 16 ^ 24) mod 16 ^ 8"
      by (rule hex_fixed_inj)
    with small [of u] small [of v] show "unat u div 16 ^ 24 = unat v div 16 ^ 24"
      by simp
  next
    assume "unat u div 16 ^ 24 = unat v div 16 ^ 24"
    then show "take 8 (str_uuid u) = take 8 (str_uuid v)"
      by (simp only: take8_str_uuid)
  qed
  also have "\<dots> \<longleftrightarrow> unat (drop_bit 96 u) = unat (drop_bit 96 v)"
  proof -
    have "(16::nat) ^ 24 = 2 ^ 96" by simp
    moreover have "unat (drop_bit 96 w) = unat w div 2 ^ 96" for w :: uuid
      by (simp only: unat_drop_bit_eq drop_bit_nat_def)
    ultimately show ?thesis by (simp only:)
  qed
  also have "\<dots> \<longleftrightarrow> drop_bit 96 u = drop_bit 96 v"
    by (auto intro: unsigned_word_eqI)
  finally show ?thesis .
qed


text \<open>
  C9 as stated fails: two different version-4 UUIDs that agree in their first eight
  hexadecimal digits give the same branch parameter and the same tag.
\<close>

theorem identifiers_counterexample:
  "(0x12345678aaaa4bbb8ccc000000000001 :: uuid) \<noteq> 0x12345678aaaa4bbb8ccc000000000002
   \<and> branch_en 0x12345678aaaa4bbb8ccc000000000001 = branch_en 0x12345678aaaa4bbb8ccc000000000002
   \<and> tag_en 0x12345678aaaa4bbb8ccc000000000001 = tag_en 0x12345678aaaa4bbb8ccc000000000002"
proof -
  have "drop_bit 96 (0x12345678aaaa4bbb8ccc000000000001 :: uuid)
          = drop_bit 96 (0x12345678aaaa4bbb8ccc000000000002 :: uuid)"
    by (simp add: drop_bit_eq_div)
  then have "take 8 (str_uuid 0x12345678aaaa4bbb8ccc000000000001)
               = take 8 (str_uuid 0x12345678aaaa4bbb8ccc000000000002)"
    by (simp only: take8_eq_iff)
  then show ?thesis
    by (simp add: branch_en_def tag_en_def)
qed

text \<open>
  C9, as amended. The Call-ID is the whole UUID, so different UUIDs give different
  Call-IDs. The branch parameter and the tag keep the first eight hexadecimal digits
  only: two of them are equal exactly when the top 32 bits of their UUIDs are.
\<close>

theorem identifiers:
  "(u \<noteq> v \<longrightarrow> call_id_en u \<noteq> call_id_en v)
   \<and> (branch_en u = branch_en v \<longleftrightarrow> drop_bit 96 u = drop_bit 96 v)
   \<and> (tag_en u = tag_en v \<longleftrightarrow> drop_bit 96 u = drop_bit 96 v)"
  using str_uuid_inj [of u v] take8_eq_iff [of u v]
  by (auto simp: call_id_en_def branch_en_def tag_en_def)

theorem identifiers_witness:
  "(0x12345678aaaa4bbb8ccc000000000001 :: uuid) \<noteq> 0x22345678aaaa4bbb8ccc000000000001
   \<and> call_id_en 0x12345678aaaa4bbb8ccc000000000001 \<noteq> call_id_en 0x22345678aaaa4bbb8ccc000000000001
   \<and> branch_en 0x12345678aaaa4bbb8ccc000000000001 \<noteq> branch_en 0x22345678aaaa4bbb8ccc000000000001"
proof -
  have ne: "(0x12345678aaaa4bbb8ccc000000000001 :: uuid) \<noteq> 0x22345678aaaa4bbb8ccc000000000001"
    by simp
  have top: "drop_bit 96 (0x12345678aaaa4bbb8ccc000000000001 :: uuid)
          \<noteq> drop_bit 96 (0x22345678aaaa4bbb8ccc000000000001 :: uuid)"
    by (simp add: drop_bit_eq_div)
  from identifiers [of "0x12345678aaaa4bbb8ccc000000000001" "0x22345678aaaa4bbb8ccc000000000001"]
    ne top
  show ?thesis by blast
qed

section \<open>The report trigger\<close>

text \<open>
  C4 at a concrete input of the English script: one target has been \<open>'failed'\<close> since
  1000, the last report was at 0 and the interval of 3600 seconds has passed at 3600.
  The check fires, \<open>notify_alert\<close> is called and \<open>last_report_time\<close> becomes 3600, but
  no alert function of \<open>email_utils\<close> or \<open>telegram_utils\<close> runs.
\<close>

theorem report_en_failing_input:
  "map_sum id (\<lambda>r. (fired r, notified r \<noteq> None, deliveries r, new_last_report_time r))
     (report_en (\<lambda>t. lit ''1970-01-01 00:16:40'') (lit ''1970-01-01 01:00'') 3600
        [(lit ''172.16.31.144'', \<lparr>state = Failed, since = Some 1000\<rparr>)] 0 3600)
   = Inr (True, True, [], 3600)"
  by (simp add: report_en_def notify_alert_en_result Let_def)

lemma format_duration_ru_en: "format_duration_ru d = format_duration_en d"
  by (simp add: format_duration_ru_def format_duration_en_def)

text \<open>The Russian script at the input of the theorem above: both alert functions run.\<close>

lemma report_ru_same_input:
  "map_sum id (\<lambda>r. (fired r, notified r \<noteq> None, length (deliveries r), new_last_report_time r))
     (report_ru alerts (\<lambda>t. lit ''1970-01-01 00:16:40'') (lit ''1970-01-01 01:00'') 3600
        [(lit ''172.16.31.144'', \<lparr>state = Failed, since = Some 1000\<rparr>)] 0 3600)
   = Inr (True, True, 2, 3600)"
proof -
  let ?ps = "[(lit ''172.16.31.144'', \<lparr>state = Failed, since = Some (1000::real)\<rparr>)]"
  let ?lines = "report_lines_ru (\<lambda>t. lit ''1970-01-01 00:16:40'') 3600 ?ps"
  have duration: "format_duration_ru 2600 = lit ''00:43:20''"
    by (simp add: format_duration_ru_en format_duration_en_fields format_02d_def digits_zero
        digits_two lit_def)
  have lines: "?lines =
      [lit ''- '' @ lit ''172.16.31.144'' @ RU_UNAVAILABLE_SINCE @ lit ''1970-01-01 00:16:40''
         @ RU_DURATION @ lit ''00:43:20'' @ lit '')'']"
    by (simp add: duration)
  have encodable: "mime_text_raises (RU_BODY_HEAD @ join [10] ?lines @ RU_BODY_TAIL) = None"
    unfolding lines
    by (simp add: mime_text_raises_def RU_BODY_HEAD_def RU_BODY_TAIL_def
        RU_UNAVAILABLE_SINCE_def RU_DURATION_def lit_def)
  have "RU_TELEGRAM_HEAD @ join [10] ?lines \<noteq> []"
    by (simp add: RU_TELEGRAM_HEAD_def)
  from notify_alert_ru_calls [OF this encodable]
  obtain mail d where
    "notify_alert_ru alerts (RU_SUBJECT @ lit ''1970-01-01 01:00'' @ lit '')'')
       (RU_BODY_HEAD @ join [10] ?lines @ RU_BODY_TAIL)
       (Some (RU_TELEGRAM_HEAD @ join [10] ?lines)) = Inr [mail, d]"
    by blast
  then show ?thesis
    by (simp add: report_ru_def Let_def)
qed

section \<open>The two scripts\<close>












end
